theory Spec2Isabelle
  imports Complex_Main
begin

section \<open>Dovetail joints for the Shaper Origin: parameters and derived geometry\<close>

text \<open>
  The development embeds \<^verbatim>\<open>shaper_origin_dovetails.py\<close> (class
  \<^verbatim>\<open>ShaperOriginDovetailsExtension\<close>) together with the parts of
  \<^verbatim>\<open>shaper_origin_base.py\<close> and \<^verbatim>\<open>shaper_origin_anchor_utils.py\<close> it calls.

  Python's \<^verbatim>\<open>float\<close> is modelled by \<^typ>\<open>real\<close>: every statement below is about
  the exact arithmetic the source's formulas denote, not about IEEE rounding. Python's
  \<^verbatim>\<open>int\<close> is \<^typ>\<open>int\<close>. An attribute that \<^verbatim>\<open>__init__\<close> sets to
  \<^verbatim>\<open>None\<close> is an \<open>option\<close>.
\<close>

subsection \<open>Module constants\<close>

definition OVERCUTTING_BUFFER_FACTOR :: real where
  "OVERCUTTING_BUFFER_FACTOR = 0.55"

definition LOWER_OVERCUTTING_BUFFER_DOVETAIL_BIT_FACTOR :: real where
  "LOWER_OVERCUTTING_BUFFER_DOVETAIL_BIT_FACTOR = 1.0"

definition HORIZONTAL_BUFFER :: real where
  "HORIZONTAL_BUFFER = 2"

definition FONT_SIZE :: real where
  "FONT_SIZE = 4"

definition LINE_HEIGHT :: real where
  "LINE_HEIGHT = FONT_SIZE * 1.6"

definition VERTICAL_OFFSET_BOARDS :: real where
  "VERTICAL_OFFSET_BOARDS = 50"

subsection \<open>The command line options and the extension object\<close>

text \<open>The values \<^verbatim>\<open>add_arguments\<close> declares (\<^verbatim>\<open>self.options\<close>).\<close>

record options =
  cut_angle :: real
  tail_bit_diameter :: real
  pin_bit_diameter :: real
  tail_thickness :: real
  pin_thickness :: real
  width :: real
  width_tails :: real
  num_tails :: int

text \<open>The attributes of the extension object; \<^verbatim>\<open>__init__\<close> sets the derived ones to None.\<close>

record ext =
  opts :: options
  tan_cut_angle :: "real option"
  is_odd_number_of_tails :: "bool option"
  upper_tail_diameter :: "real option"
  smaller_width_tails :: "real option"
  individual_width_of_tail_cut :: "real option"

definition init :: "options \<Rightarrow> ext" where
  "init p = \<lparr> opts = p, tan_cut_angle = None, is_odd_number_of_tails = None,
      upper_tail_diameter = None, smaller_width_tails = None,
      individual_width_of_tail_cut = None \<rparr>"

text \<open>The exceptions the modelled code can raise.\<close>

datatype exn = TypeError | ZeroDivisionError | AssertionError

text \<open>
  The four messages \<^verbatim>\<open>__calc_and_check_parameters\<close> returns. The source builds a string;
  the model keeps which message it is and the values interpolated into it, in the order of
  their first occurrence.
\<close>

datatype failure =
    DiameterNonPositive real real real
  | TailNarrowerThanPinBit real real real
  | TailsExceedBoardWidth real real bool
  | InterTailCutTooNarrow real real real

subsection \<open>Derived geometry\<close>

text \<open>\<^verbatim>\<open>math.radians\<close>.\<close>

definition radians :: "real \<Rightarrow> real" where
  "radians d = d * pi / 180"

text \<open>A None attribute is falsy in a condition.\<close>

definition truthy :: "bool option \<Rightarrow> bool" where
  "truthy b = (b = Some True)"

definition calculate_upper_tail_diameter :: "ext \<Rightarrow> exn + real" where
  "calculate_upper_tail_diameter self =
     (case tan_cut_angle self of
        None \<Rightarrow> Inl TypeError
      | Some t \<Rightarrow> Inr (tail_bit_diameter (opts self) - 2 * t * pin_thickness (opts self)))"

definition num_tail_cuts :: "ext \<Rightarrow> int" where
  "num_tail_cuts self =
     (if truthy (is_odd_number_of_tails self) then num_tails (opts self) + 1
      else num_tails (opts self))"

text \<open>
  \<^verbatim>\<open>__calc_and_check_parameters\<close>: the result is the exception raised, or the returned
  message (None when every check passes) with the object as the assignments left it.
\<close>

definition calc_and_check_parameters :: "ext \<Rightarrow> exn + (failure option \<times> ext)" where
  "calc_and_check_parameters self =
     (let p = opts self;
          self1 = self\<lparr>tan_cut_angle := Some (tan (radians (cut_angle p))),
                       is_odd_number_of_tails := Some (num_tails p mod 2 = 1)\<rparr>
      in case calculate_upper_tail_diameter self1 of
           Inl e \<Rightarrow> Inl e
         | Inr utd \<Rightarrow>
             let self2 = self1\<lparr>upper_tail_diameter := Some utd\<rparr> in
             if utd \<le> 0 then
               Inr (Some (DiameterNonPositive (cut_angle p) (tail_bit_diameter p)
                            (pin_thickness p)), self2)
             else
               let swt = width_tails p - (tail_bit_diameter p - utd);
                   self3 = self2\<lparr>smaller_width_tails := Some swt\<rparr> in
               if swt < pin_bit_diameter p then
                 Inr (Some (TailNarrowerThanPinBit (width_tails p) swt
                              (pin_bit_diameter p)), self3)
               else
                 let cumulative_tail_width = real_of_int (num_tail_cuts self3) * width_tails p in
                 if cumulative_tail_width \<ge> width p then
                   Inr (Some (TailsExceedBoardWidth cumulative_tail_width (width p)
                                (truthy (is_odd_number_of_tails self3))), self3)
                 else
                   let cumulative_width_of_cuts_between_tails = width p - cumulative_tail_width in
                   if \<not> cumulative_width_of_cuts_between_tails > 0 then Inl AssertionError
                   else if num_tail_cuts self3 = 0 then Inl ZeroDivisionError
                   else
                     let iw = cumulative_width_of_cuts_between_tails
                                / real_of_int (num_tail_cuts self3);
                         self4 = self3\<lparr>individual_width_of_tail_cut := Some iw\<rparr> in
                     if iw < utd then
                       Inr (Some (InterTailCutTooNarrow iw utd (pin_thickness p)), self4)
                     else Inr (None, self4))"

text \<open>The domain of the parameters: positive lengths, an angle strictly between 0 and 90
  degrees, at least one tail.\<close>

definition valid :: "options \<Rightarrow> bool" where
  "valid p \<longleftrightarrow>
     0 < cut_angle p \<and> cut_angle p < 90 \<and> 0 < tail_bit_diameter p \<and> 0 < pin_bit_diameter p \<and>
     0 < tail_thickness p \<and> 0 < pin_thickness p \<and> 0 < width p \<and> 0 < width_tails p \<and>
     1 \<le> num_tails p"

section \<open>The host document and the shapes written to it\<close>

text \<open>
  \<^verbatim>\<open>RoutingType\<close> of \<^verbatim>\<open>shaper_origin_base.py\<close>, with the fill and stroke colours each
  member carries.
\<close>

datatype routing_type = GUIDE | INTERIOR | EXTERIOR | ON_LINE | POCKET

fun fill :: "routing_type \<Rightarrow> string option" where
  "fill GUIDE = Some ''#0068ff''"
| "fill INTERIOR = Some ''#ffffff''"
| "fill EXTERIOR = Some ''#000000''"
| "fill ON_LINE = None"
| "fill POCKET = Some ''#7f7f7f''"

fun stroke :: "routing_type \<Rightarrow> string option" where
  "stroke GUIDE = Some ''#0068ff''"
| "stroke INTERIOR = Some ''#000000''"
| "stroke EXTERIOR = Some ''#000000''"
| "stroke ON_LINE = Some ''#7f7f7f''"
| "stroke POCKET = None"

text \<open>\<^verbatim>\<open>AxisOrientation\<close> of \<^verbatim>\<open>shaper_origin_anchor_utils.py\<close>.\<close>

datatype AxisOrientation = RT | RB | LT | LB

text \<open>
  The instruction texts of \<^verbatim>\<open>add_pin_board\<close> and \<^verbatim>\<open>add_tail_board\<close>, in the order of
  the source, each with the value interpolated into it.
\<close>

datatype instruction =
    PinBoardPattern
  | SetCuttingDepth real
  | TailBoardPattern
  | AnyStraightCutter
  | SetCuttingDiameter real
  | NoIncrementalDepths
  | BuffersLeaveSpace
  | SkipText
  | AmountOfPaths

text \<open>
  The elements the extension builds, with their attributes in user units:
  a rectangle (x, y, width, height, routing type, cut depth with its dimension), a polygon
  styled by a routing type (points, routing type, cut depth), a path element (points,
  routing type, cut depth), the red anchor polygon (points), and a text element (x, y, font
  size, text, bold). The cut depth is the attribute \<^verbatim>\<open>shaper:cutDepth\<close>, None when the
  element does not have it.
\<close>

datatype shape =
    Rectangle (rect_x: real) (rect_y: real) (rect_width: real) (rect_height: real)
      (routing: routing_type) (cut_depth: "(real \<times> string) option")
  | Polygon (points: "(real \<times> real) list") (routing: routing_type)
      (cut_depth: "(real \<times> string) option")
  | Path (points: "(real \<times> real) list") (routing: routing_type)
      (cut_depth: "(real \<times> string) option")
  | AnchorPolygon (points: "(real \<times> real) list")
  | TextElement real real real instruction bool

text \<open>
  What the extension sees of its host: the scale of the document
  (\<^verbatim>\<open>self.svg.inkscape_scale\<close>, which inkex never reports as zero), the children of the
  current layer in the order they were added, and the messages passed to
  \<^verbatim>\<open>inkex.utils.errormsg\<close>.
\<close>

record host =
  inkscape_scale :: real
  layer :: "shape list"
  errormsgs :: "failure list"

definition du2uu :: "host \<Rightarrow> real \<Rightarrow> real" where
  "du2uu doc doc_unit_value = doc_unit_value / inkscape_scale doc"

definition du2uu_points :: "host \<Rightarrow> (real \<times> real) list \<Rightarrow> (real \<times> real) list" where
  "du2uu_points doc points_iterable = map (\<lambda>p. (du2uu doc (fst p), du2uu doc (snd p))) points_iterable"

definition layer_add :: "host \<Rightarrow> shape \<Rightarrow> host" where
  "layer_add doc elem = doc\<lparr>layer := layer doc @ [elem]\<rparr>"

text \<open>
  Python's \<^verbatim>\<open>"{:.3f}".format(depth)\<close> writes the depth rounded to three decimals, a tie
  going to the even neighbour. The text is modelled by the number it denotes.
\<close>

definition round_half_even :: "real \<Rightarrow> int" where
  "round_half_even x =
     (let f = \<lfloor>x\<rfloor>; r = x - real_of_int f
      in if r < 1 / 2 then f else if 1 / 2 < r then f + 1 else if even f then f else f + 1)"

definition format_3f :: "real \<Rightarrow> real" where
  "format_3f depth = real_of_int (round_half_even (depth * 1000)) / 1000"

text \<open>\<^verbatim>\<open>add_depth_info\<close>: the value it gives the attribute \<^verbatim>\<open>shaper:cutDepth\<close> of the
  element, the formatted depth followed by the dimension.\<close>

definition add_depth_info :: "real \<Rightarrow> string \<Rightarrow> real \<times> string" where
  "add_depth_info depth dimension = (format_3f depth, dimension)"

text \<open>
  \<^verbatim>\<open>to_path_element\<close> of inkex, which \<^verbatim>\<open>add_polygon\<close> calls on its polygon: a new path
  element that takes over the path and the style of the element and none of its other
  attributes, so the result has no \<^verbatim>\<open>shaper:cutDepth\<close>. Only a polygon with a routing
  type is ever passed to it.
\<close>

definition to_path_element :: "shape \<Rightarrow> shape" where
  "to_path_element elem = Path (points elem) (routing elem) None"

definition add_box ::
  "host \<Rightarrow> real \<Rightarrow> real \<Rightarrow> real \<Rightarrow> real \<Rightarrow> routing_type \<Rightarrow> real option \<Rightarrow> host" where
  "add_box doc x0 y0 x1 y1 rt depth =
     (let x = du2uu doc (min x0 x1);
          y = du2uu doc (min y0 y1);
          w = du2uu doc (\<bar>x1 - x0\<bar>);
          h = du2uu doc (\<bar>y1 - y0\<bar>)
      in layer_add doc (Rectangle x y w h rt
           (case depth of None \<Rightarrow> None | Some d \<Rightarrow> Some (add_depth_info d ''mm''))))"

text \<open>
  \<^verbatim>\<open>add_polygon\<close>: the polygon gets its points, the style of INTERIOR and the cut depth;
  what is added to the layer is the path element made from it.
\<close>

definition add_polygon :: "ext \<Rightarrow> host \<Rightarrow> (real \<times> real) list \<Rightarrow> host" where
  "add_polygon self doc args =
     (let points_in_user_units = du2uu_points doc args;
          polygon = Polygon points_in_user_units INTERIOR
                      (Some (add_depth_info (tail_thickness (opts self)) ''mm''))
      in layer_add doc (to_path_element polygon))"

definition add_text :: "host \<Rightarrow> real \<Rightarrow> real \<Rightarrow> instruction \<Rightarrow> real \<Rightarrow> bool \<Rightarrow> host" where
  "add_text doc x y txt font_size bold =
     layer_add doc (TextElement (du2uu doc x) (du2uu doc y) (du2uu doc font_size) txt bold)"

definition create_anchor_polygon :: "AxisOrientation \<Rightarrow> real \<Rightarrow> real \<Rightarrow> real \<Rightarrow> shape" where
  "create_anchor_polygon axis_orientation x y x_size =
     (let y_size = 2 * x_size;
          p0 = (x, y)
      in case axis_orientation of
           RT \<Rightarrow> AnchorPolygon [p0, (x, y - y_size), (x + x_size, y)]
         | RB \<Rightarrow> AnchorPolygon [p0, (x + x_size, y), (x, y + y_size)]
         | LT \<Rightarrow> AnchorPolygon [p0, (x - x_size, y), (x, y - y_size)]
         | LB \<Rightarrow> AnchorPolygon [p0, (x - x_size, y), (x, y + y_size)])"

section \<open>The layout of the two boards\<close>

subsection \<open>The tail board\<close>

text \<open>
  The \<^verbatim>\<open>while\<close> loop of \<^verbatim>\<open>add_tail_cuts\<close> (odd number of tails). It runs as long as
  \<open>x\<close> is left of the board's right edge, so it need not return: None is a run that
  never leaves the loop.
\<close>

partial_function (option) tail_cuts_while ::
  "ext \<Rightarrow> real \<Rightarrow> real \<Rightarrow> real \<Rightarrow> host \<Rightarrow> (exn + host) option" where
  "tail_cuts_while self start_y end_y x doc =
     (if x < width (opts self) then
        (case individual_width_of_tail_cut self of
           None \<Rightarrow> Some (Inl TypeError)
         | Some iw \<Rightarrow>
             tail_cuts_while self start_y end_y (x + iw + width_tails (opts self))
               (add_box doc x start_y (x + iw) end_y INTERIOR (Some (pin_thickness (opts self)))))
      else Some (Inr doc))"

text \<open>The \<^verbatim>\<open>for\<close> loop of \<^verbatim>\<open>add_tail_cuts\<close> (even number of tails), by the number of
  iterations left.\<close>

fun tail_cuts_for :: "ext \<Rightarrow> real \<Rightarrow> real \<Rightarrow> nat \<Rightarrow> real \<Rightarrow> host \<Rightarrow> exn + host" where
  "tail_cuts_for self start_y end_y 0 x doc = Inr doc"
| "tail_cuts_for self start_y end_y (Suc k) x doc =
     (case individual_width_of_tail_cut self of
        None \<Rightarrow> Inl TypeError
      | Some iw \<Rightarrow>
          tail_cuts_for self start_y end_y k (x + iw + width_tails (opts self))
            (add_box doc x start_y (x + iw) end_y INTERIOR (Some (pin_thickness (opts self)))))"

definition add_tail_cuts :: "ext \<Rightarrow> real \<Rightarrow> host \<Rightarrow> (exn + (real \<times> host)) option" where
  "add_tail_cuts self y_origin_tail_board doc =
     (let p = opts self;
          cutting_buffer_above_board = tail_bit_diameter p * OVERCUTTING_BUFFER_FACTOR;
          start_y = y_origin_tail_board - cutting_buffer_above_board;
          cutting_buffer_below_board =
            tail_bit_diameter p * LOWER_OVERCUTTING_BUFFER_DOVETAIL_BIT_FACTOR;
          end_y = y_origin_tail_board + tail_thickness p + cutting_buffer_below_board
      in if truthy (is_odd_number_of_tails self) then
           (case tail_cuts_while self start_y end_y (width_tails p / 2) doc of
              None \<Rightarrow> None
            | Some (Inl e) \<Rightarrow> Some (Inl e)
            | Some (Inr doc') \<Rightarrow> Some (Inr (end_y, doc')))
         else
           (case individual_width_of_tail_cut self of
              None \<Rightarrow> Some (Inl TypeError)
            | Some iw \<Rightarrow>
                let doc1 = add_box doc (- HORIZONTAL_BUFFER) start_y (iw / 2) end_y
                             INTERIOR (Some (pin_thickness p));
                    doc2 = add_box doc1 (width p - iw / 2) start_y
                             (width p + HORIZONTAL_BUFFER) end_y
                             INTERIOR (Some (pin_thickness p))
                in (case tail_cuts_for self start_y end_y (nat (num_tails p - 1))
                           (iw / 2 + width_tails p) doc2 of
                      Inl e \<Rightarrow> Some (Inl e)
                    | Inr doc3 \<Rightarrow> Some (Inr (end_y, doc3)))))"

subsection \<open>The pin board\<close>

text \<open>The \<^verbatim>\<open>for\<close> loop of \<^verbatim>\<open>add_pin_cuts\<close>, by the number of iterations left;
  \<open>x\<close> is the horizontal centre of the next trapezoid.\<close>

fun pin_cuts_for :: "ext \<Rightarrow> real \<Rightarrow> real \<Rightarrow> real \<Rightarrow> nat \<Rightarrow> real \<Rightarrow> host \<Rightarrow> exn + host" where
  "pin_cuts_for self delta_x start_y end_y 0 x doc = Inr doc"
| "pin_cuts_for self delta_x start_y end_y (Suc k) x doc =
     (case smaller_width_tails self of
        None \<Rightarrow> Inl TypeError
      | Some swt \<Rightarrow>
          (case individual_width_of_tail_cut self of
             None \<Rightarrow> Inl TypeError
           | Some iw \<Rightarrow>
               let top_left = (x - swt / 2 + delta_x, start_y);
                   top_right = (x + swt / 2 - delta_x, start_y);
                   bottom_right = (x + width_tails (opts self) / 2 + delta_x, end_y);
                   bottom_left = (x - width_tails (opts self) / 2 - delta_x, end_y)
               in pin_cuts_for self delta_x start_y end_y k
                    (x + iw + width_tails (opts self))
                    (add_polygon self doc [top_left, top_right, bottom_right, bottom_left])))"

definition add_pin_cuts :: "ext \<Rightarrow> host \<Rightarrow> exn + (real \<times> host)" where
  "add_pin_cuts self doc =
     (let p = opts self;
          cutting_buffer_outside_of_board = pin_bit_diameter p * OVERCUTTING_BUFFER_FACTOR;
          start_y = - cutting_buffer_outside_of_board;
          end_y = pin_thickness p + cutting_buffer_outside_of_board
      in case tan_cut_angle self of
           None \<Rightarrow> Inl TypeError
         | Some t \<Rightarrow>
             let delta_x = cutting_buffer_outside_of_board * t in
             if truthy (is_odd_number_of_tails self) then
               (case smaller_width_tails self of
                  None \<Rightarrow> Inl TypeError
                | Some swt \<Rightarrow>
                    let doc1 = add_polygon self doc
                          [(- HORIZONTAL_BUFFER, start_y),
                           (swt / 2 - delta_x, start_y),
                           (width_tails p / 2 + delta_x, end_y),
                           (- HORIZONTAL_BUFFER, end_y)];
                        doc2 = add_polygon self doc1
                          [(width p - swt / 2 + delta_x, start_y),
                           (width p + HORIZONTAL_BUFFER, start_y),
                           (width p + HORIZONTAL_BUFFER, end_y),
                           (width p - width_tails p / 2 - delta_x, end_y)]
                    in (case individual_width_of_tail_cut self of
                          None \<Rightarrow> Inl TypeError
                        | Some iw \<Rightarrow>
                            (case pin_cuts_for self delta_x start_y end_y (nat (num_tails p))
                                    (width_tails p + iw) doc2 of
                               Inl e \<Rightarrow> Inl e
                             | Inr doc3 \<Rightarrow> Inr (end_y, doc3))))
             else
               (case individual_width_of_tail_cut self of
                  None \<Rightarrow> Inl TypeError
                | Some iw \<Rightarrow>
                    (case pin_cuts_for self delta_x start_y end_y (nat (num_tails p))
                            ((width_tails p + iw) / 2) doc of
                       Inl e \<Rightarrow> Inl e
                     | Inr doc3 \<Rightarrow> Inr (end_y, doc3))))"

definition add_pin_board :: "ext \<Rightarrow> host \<Rightarrow> exn + (real \<times> host)" where
  "add_pin_board self doc =
     (let p = opts self;
          doc1 = add_box doc 0 0 (width p) (pin_thickness p) GUIDE None
      in case add_pin_cuts self doc1 of
           Inl e \<Rightarrow> Inl e
         | Inr (lower_end, doc2) \<Rightarrow>
             let pin_anchor_element =
                   create_anchor_polygon RT 0 (du2uu doc2 (pin_thickness p))
                     (du2uu doc2 (pin_thickness p / 2));
                 doc3 = layer_add doc2 pin_anchor_element;
                 doc4 = add_text doc3 0 (lower_end + LINE_HEIGHT) PinBoardPattern FONT_SIZE False;
                 doc5 = add_text doc4 0 (lower_end + 2 * LINE_HEIGHT)
                          (SetCuttingDepth (tail_thickness p)) FONT_SIZE False
             in Inr (lower_end, doc5))"

definition add_tail_board :: "ext \<Rightarrow> real \<Rightarrow> host \<Rightarrow> (exn + host) option" where
  "add_tail_board self y_origin_tail_board doc =
     (let p = opts self;
          doc1 = add_box doc 0 y_origin_tail_board (width p)
                   (y_origin_tail_board + tail_thickness p) GUIDE None
      in case add_tail_cuts self y_origin_tail_board doc1 of
           None \<Rightarrow> None
         | Some (Inl e) \<Rightarrow> Some (Inl e)
         | Some (Inr (lower_end, doc2)) \<Rightarrow>
             let dovetail_anchor_element =
                   create_anchor_polygon RT 0
                     (du2uu doc2 (y_origin_tail_board + tail_thickness p))
                     (du2uu doc2 (tail_thickness p / 2));
                 doc3 = layer_add doc2 dovetail_anchor_element;
                 doc4 = add_text doc3 0 (lower_end + LINE_HEIGHT) TailBoardPattern FONT_SIZE False;
                 doc5 = add_text doc4 0 (lower_end + 2 * LINE_HEIGHT)
                          (SetCuttingDepth (pin_thickness p)) FONT_SIZE False;
                 doc6 = add_text doc5 0 (lower_end + 3 * LINE_HEIGHT)
                          AnyStraightCutter FONT_SIZE False
             in (case upper_tail_diameter self of
                   None \<Rightarrow> Some (Inl TypeError)
                 | Some utd \<Rightarrow>
                     let doc7 = add_text doc6 0 (lower_end + 4.5 * LINE_HEIGHT)
                                  (SetCuttingDiameter utd) FONT_SIZE True;
                         doc8 = add_text doc7 0 (lower_end + 5.5 * LINE_HEIGHT)
                                  NoIncrementalDepths FONT_SIZE False;
                         doc9 = add_text doc8 0 (lower_end + 6.5 * LINE_HEIGHT)
                                  BuffersLeaveSpace FONT_SIZE False;
                         doc10 = add_text doc9 0 (lower_end + 9 * LINE_HEIGHT)
                                   SkipText FONT_SIZE False;
                         doc11 = add_text doc10 0 (lower_end + 10 * LINE_HEIGHT)
                                   AmountOfPaths FONT_SIZE False
                     in Some (Inr doc11)))"

subsection \<open>The effect\<close>

text \<open>
  \<^verbatim>\<open>shaper_effect\<close>: None when the run does not return, otherwise the exception raised or
  the extension object and the host as the run leaves them.
\<close>

definition shaper_effect :: "ext \<Rightarrow> host \<Rightarrow> (exn + (ext \<times> host)) option" where
  "shaper_effect self doc =
     (case calc_and_check_parameters self of
        Inl e \<Rightarrow> Some (Inl e)
      | Inr (Some errormsg, self') \<Rightarrow>
          Some (Inr (self', doc\<lparr>errormsgs := errormsgs doc @ [errormsg]\<rparr>))
      | Inr (None, self') \<Rightarrow>
          (case add_pin_board self' doc of
             Inl e \<Rightarrow> Some (Inl e)
           | Inr (lower_end, doc1) \<Rightarrow>
               (case add_tail_board self' (lower_end + VERTICAL_OFFSET_BOARDS) doc1 of
                  None \<Rightarrow> None
                | Some (Inl e) \<Rightarrow> Some (Inl e)
                | Some (Inr doc2) \<Rightarrow> Some (Inr (self', doc2)))))"

section \<open>The quantities of the specification, and example joints\<close>

text \<open>
  The derived values as the specification of the parameter check writes them, as functions
  of the options alone; the theorems compare them with what the code stores.
\<close>

definition spec_upper_tail_diameter :: "options \<Rightarrow> real" where
  "spec_upper_tail_diameter p =
     tail_bit_diameter p - 2 * tan (radians (cut_angle p)) * pin_thickness p"

definition spec_smaller_tail_width :: "options \<Rightarrow> real" where
  "spec_smaller_tail_width p =
     width_tails p - (tail_bit_diameter p - spec_upper_tail_diameter p)"

definition spec_num_tail_cuts :: "options \<Rightarrow> int" where
  "spec_num_tail_cuts p = (if odd (num_tails p) then num_tails p + 1 else num_tails p)"

definition spec_cumulative_tail_width :: "options \<Rightarrow> real" where
  "spec_cumulative_tail_width p = real_of_int (spec_num_tail_cuts p) * width_tails p"

definition spec_individual_inter_tail_cut_width :: "options \<Rightarrow> real" where
  "spec_individual_inter_tail_cut_width p =
     (width p - spec_cumulative_tail_width p) / real_of_int (spec_num_tail_cuts p)"

text \<open>Joints cut at 45 degrees (whose tangent is 1) with the default bits, for the
  concrete runs below.\<close>

definition joint45 :: "real \<Rightarrow> real \<Rightarrow> real \<Rightarrow> int \<Rightarrow> options" where
  "joint45 pt w wt n = \<lparr> cut_angle = 45, tail_bit_diameter = 13.8, pin_bit_diameter = 8,
     tail_thickness = 15, pin_thickness = pt, width = w, width_tails = wt, num_tails = n \<rparr>"


definition empty_doc :: host where
  "empty_doc = \<lparr> inkscape_scale = 1, layer = [], errormsgs = [] \<rparr>"

section \<open>Describing the shapes the layout emits\<close>

text \<open>The corners the loop body of \<^verbatim>\<open>add_pin_cuts\<close> passes to \<^verbatim>\<open>add_polygon\<close> for the
  trapezoid centred at \<open>x\<close>, in document units and in the order of the source.\<close>

definition trapezoid :: "real \<Rightarrow> real \<Rightarrow> real \<Rightarrow> real \<Rightarrow> real \<Rightarrow> real \<Rightarrow> (real \<times> real) list" where
  "trapezoid swt wt delta_x start_y end_y x =
     [(x - swt / 2 + delta_x, start_y), (x + swt / 2 - delta_x, start_y),
      (x + wt / 2 + delta_x, end_y), (x - wt / 2 - delta_x, end_y)]"

text \<open>The element \<^verbatim>\<open>add_polygon\<close> adds for a list of corners given in document units.\<close>

definition pin_cut :: "host \<Rightarrow> (real \<times> real) list \<Rightarrow> shape" where
  "pin_cut doc corners = Path (du2uu_points doc corners) INTERIOR None"

text \<open>The element \<^verbatim>\<open>add_box\<close> adds for the tail board cut from \<open>x0\<close> to \<open>x1\<close> and from
  \<open>start_y\<close> to \<open>end_y\<close> (document units, \<open>x0 \<le> x1\<close> and \<open>start_y \<le> end_y\<close>).\<close>

definition tail_cut :: "ext \<Rightarrow> host \<Rightarrow> real \<Rightarrow> real \<Rightarrow> real \<Rightarrow> real \<Rightarrow> shape" where
  "tail_cut self doc start_y end_y x0 x1 =
     Rectangle (du2uu doc x0) (du2uu doc start_y) (du2uu doc (x1 - x0))
       (du2uu doc (end_y - start_y)) INTERIOR
       (Some (format_3f (pin_thickness (opts self)), ''mm''))"

text \<open>The names the specification gives to the quantities of the layout: the overcut buffer
  of the pin board and the horizontal offset it adds, the vertical extent of the cuts of both
  boards, and the distance from one cut to the next.\<close>

definition overcut_buffer :: "options \<Rightarrow> real" where
  "overcut_buffer p = pin_bit_diameter p * 0.55"

definition spec_delta_x :: "options \<Rightarrow> real" where
  "spec_delta_x p = overcut_buffer p * tan (radians (cut_angle p))"

definition pin_start_y :: "options \<Rightarrow> real" where
  "pin_start_y p = - overcut_buffer p"

definition pin_end_y :: "options \<Rightarrow> real" where
  "pin_end_y p = pin_thickness p + overcut_buffer p"

definition tail_start_y :: "options \<Rightarrow> real \<Rightarrow> real" where
  "tail_start_y p y_origin = y_origin - tail_bit_diameter p * 0.55"

definition tail_end_y :: "options \<Rightarrow> real \<Rightarrow> real" where
  "tail_end_y p y_origin = y_origin + tail_thickness p + tail_bit_diameter p * 1.0"

definition spacing :: "options \<Rightarrow> real" where
  "spacing p = spec_individual_inter_tail_cut_width p + width_tails p"

text \<open>The centre of the \<open>j\<close>-th full trapezoid of the pin board, counted from 0.\<close>

definition pin_centre :: "options \<Rightarrow> nat \<Rightarrow> real" where
  "pin_centre p j =
     (if odd (num_tails p) then width_tails p + spec_individual_inter_tail_cut_width p
      else (width_tails p + spec_individual_inter_tail_cut_width p) / 2)
     + real j * spacing p"

text \<open>The corners of the two half-tails of an odd number of tails.\<close>

definition left_half_tail :: "options \<Rightarrow> (real \<times> real) list" where
  "left_half_tail p =
     [(- 2, pin_start_y p), (spec_smaller_tail_width p / 2 - spec_delta_x p, pin_start_y p),
      (width_tails p / 2 + spec_delta_x p, pin_end_y p), (- 2, pin_end_y p)]"

definition right_half_tail :: "options \<Rightarrow> (real \<times> real) list" where
  "right_half_tail p =
     [(width p - spec_smaller_tail_width p / 2 + spec_delta_x p, pin_start_y p),
      (width p + 2, pin_start_y p), (width p + 2, pin_end_y p),
      (width p - width_tails p / 2 - spec_delta_x p, pin_end_y p)]"

text \<open>The full trapezoid of the pin board centred at \<open>x\<close>.\<close>

definition full_tail :: "options \<Rightarrow> real \<Rightarrow> (real \<times> real) list" where
  "full_tail p x =
     trapezoid (spec_smaller_tail_width p) (width_tails p) (spec_delta_x p)
       (pin_start_y p) (pin_end_y p) x"

text \<open>The left edge of the \<open>j\<close>-th rectangle the loop of \<^verbatim>\<open>add_tail_cuts\<close> adds, counted
  from 0.\<close>

definition tail_cut_left :: "options \<Rightarrow> nat \<Rightarrow> real" where
  "tail_cut_left p j =
     (if odd (num_tails p) then width_tails p / 2
      else spec_individual_inter_tail_cut_width p / 2 + width_tails p)
     + real j * spacing p"

text \<open>The extension object after a successful check of such a joint.\<close>

definition resolved45 :: "real \<Rightarrow> real \<Rightarrow> real \<Rightarrow> int \<Rightarrow> real \<Rightarrow> ext" where
  "resolved45 pt w wt n iw =
     \<lparr> opts = joint45 pt w wt n, tan_cut_angle = Some 1,
       is_odd_number_of_tails = Some (odd n), upper_tail_diameter = Some (13.8 - 2 * pt),
       smaller_width_tails = Some (wt - 2 * pt), individual_width_of_tail_cut = Some iw \<rparr>"

text \<open>
  The region a trapezoid of the pin board covers. The four corners are in the order
  \<^verbatim>\<open>add_pin_cuts\<close> gives them (upper left, upper right, lower right, lower left), the upper
  two at one ordinate and the lower two at a larger one. A point is covered when it lies
  between the two ordinates and, at its ordinate, between the side from the first corner to
  the fourth and the side from the second corner to the third.
\<close>

definition covers :: "(real \<times> real) list \<Rightarrow> real \<Rightarrow> real \<Rightarrow> bool" where
  "covers corners x y =
     (snd (corners ! 0) \<le> y \<and> y \<le> snd (corners ! 3) \<and>
      (let l = (y - snd (corners ! 0)) / (snd (corners ! 3) - snd (corners ! 0));
           a = fst (corners ! 0) + l * (fst (corners ! 3) - fst (corners ! 0));
           b = fst (corners ! 1) + l * (fst (corners ! 2) - fst (corners ! 1))
       in min a b \<le> x \<and> x \<le> max a b))"

section \<open>The parameter check\<close>

lemma tan_radians_45: "tan (radians 45) = 1"
  by (simp add: radians_def tan_45)

lemma radians_range: "0 < d \<Longrightarrow> d < 90 \<Longrightarrow> 0 < radians d \<and> radians d < pi / 2"
  by (simp add: radians_def)

lemma odd_mod: "((n::int) mod 2 = 1) = odd n"
  by presburger

lemmas spec_defs = spec_upper_tail_diameter_def spec_smaller_tail_width_def
  spec_num_tail_cuts_def spec_cumulative_tail_width_def spec_individual_inter_tail_cut_width_def

lemma calc_total:
  "calc_and_check_parameters self =
   (let p = opts self;
        self2 = self\<lparr>tan_cut_angle := Some (tan (radians (cut_angle p))),
                      is_odd_number_of_tails := Some (odd (num_tails p)),
                      upper_tail_diameter := Some (spec_upper_tail_diameter p)\<rparr>;
        self3 = self2\<lparr>smaller_width_tails := Some (spec_smaller_tail_width p)\<rparr>;
        self4 = self3\<lparr>individual_width_of_tail_cut :=
                         Some (spec_individual_inter_tail_cut_width p)\<rparr>
    in if spec_upper_tail_diameter p \<le> 0 then
         Inr (Some (DiameterNonPositive (cut_angle p) (tail_bit_diameter p) (pin_thickness p)),
              self2)
       else if spec_smaller_tail_width p < pin_bit_diameter p then
         Inr (Some (TailNarrowerThanPinBit (width_tails p) (spec_smaller_tail_width p)
                      (pin_bit_diameter p)), self3)
       else if spec_cumulative_tail_width p \<ge> width p then
         Inr (Some (TailsExceedBoardWidth (spec_cumulative_tail_width p) (width p)
                      (odd (num_tails p))), self3)
       else if spec_num_tail_cuts p = 0 then Inl ZeroDivisionError
       else if spec_individual_inter_tail_cut_width p < spec_upper_tail_diameter p then
         Inr (Some (InterTailCutTooNarrow (spec_individual_inter_tail_cut_width p)
                      (spec_upper_tail_diameter p) (pin_thickness p)), self4)
       else Inr (None, self4))"
  by (simp add: calc_and_check_parameters_def calculate_upper_tail_diameter_def
      num_tail_cuts_def truthy_def Let_def odd_mod spec_defs)

lemma spec_num_tail_cuts_pos: "1 \<le> num_tails p \<Longrightarrow> 1 \<le> spec_num_tail_cuts p"
  by (simp add: spec_num_tail_cuts_def)

text \<open>
  C1: on valid parameters the check returns (it raises nothing); it returns no message
  exactly when none of the four violations holds; otherwise the message is that of the first
  violation in the order DiameterNonPositive, TailNarrowerThanPinBit, TailsExceedBoardWidth,
  InterTailCutTooNarrow, and the derived values after the failing check are not assigned.
\<close>

theorem resolve_first_violation:
  assumes "valid (opts self)"
  shows "\<exists>r self'. calc_and_check_parameters self = Inr (r, self') \<and>
    (r = None \<longleftrightarrow>
       \<not> spec_upper_tail_diameter (opts self) \<le> 0 \<and>
       \<not> spec_smaller_tail_width (opts self) < pin_bit_diameter (opts self) \<and>
       \<not> spec_cumulative_tail_width (opts self) \<ge> width (opts self) \<and>
       \<not> spec_individual_inter_tail_cut_width (opts self) < spec_upper_tail_diameter (opts self)) \<and>
    (spec_upper_tail_diameter (opts self) \<le> 0 \<longrightarrow>
       r = Some (DiameterNonPositive (cut_angle (opts self)) (tail_bit_diameter (opts self))
                   (pin_thickness (opts self))) \<and>
       smaller_width_tails self' = smaller_width_tails self \<and>
       individual_width_of_tail_cut self' = individual_width_of_tail_cut self) \<and>
    (0 < spec_upper_tail_diameter (opts self) \<and>
     spec_smaller_tail_width (opts self) < pin_bit_diameter (opts self) \<longrightarrow>
       r = Some (TailNarrowerThanPinBit (width_tails (opts self))
                   (spec_smaller_tail_width (opts self)) (pin_bit_diameter (opts self))) \<and>
       individual_width_of_tail_cut self' = individual_width_of_tail_cut self) \<and>
    (0 < spec_upper_tail_diameter (opts self) \<and>
     pin_bit_diameter (opts self) \<le> spec_smaller_tail_width (opts self) \<and>
     width (opts self) \<le> spec_cumulative_tail_width (opts self) \<longrightarrow>
       r = Some (TailsExceedBoardWidth (spec_cumulative_tail_width (opts self))
                   (width (opts self)) (odd (num_tails (opts self)))) \<and>
       individual_width_of_tail_cut self' = individual_width_of_tail_cut self) \<and>
    (0 < spec_upper_tail_diameter (opts self) \<and>
     pin_bit_diameter (opts self) \<le> spec_smaller_tail_width (opts self) \<and>
     spec_cumulative_tail_width (opts self) < width (opts self) \<and>
     spec_individual_inter_tail_cut_width (opts self) < spec_upper_tail_diameter (opts self) \<longrightarrow>
       r = Some (InterTailCutTooNarrow (spec_individual_inter_tail_cut_width (opts self))
                   (spec_upper_tail_diameter (opts self)) (pin_thickness (opts self))))"
proof -
  from assms have "1 \<le> num_tails (opts self)"
    by (simp add: valid_def)
  then have "spec_num_tail_cuts (opts self) \<noteq> 0"
    using spec_num_tail_cuts_pos [of "opts self"] by simp
  then show ?thesis
    by (simp add: calc_total Let_def)
qed


theorem resolve_first_violation_witness:
  "valid (opts (init (joint45 15 30 20 2))) \<and>
   spec_upper_tail_diameter (joint45 15 30 20 2) \<le> 0 \<and>
   width (joint45 15 30 20 2) \<le> spec_cumulative_tail_width (joint45 15 30 20 2) \<and>
   (\<exists>self'. calc_and_check_parameters (init (joint45 15 30 20 2)) =
       Inr (Some (DiameterNonPositive 45 13.8 15), self') \<and>
       smaller_width_tails self' = None \<and> individual_width_of_tail_cut self' = None) \<and>
   (\<exists>self'. calc_and_check_parameters (init (joint45 5 20 12 2)) =
       Inr (Some (TailNarrowerThanPinBit 12 2 8), self') \<and>
       individual_width_of_tail_cut self' = None) \<and>
   (\<exists>self'. calc_and_check_parameters (init (joint45 5 100 20 5)) =
       Inr (Some (TailsExceedBoardWidth 120 100 True), self') \<and>
       individual_width_of_tail_cut self' = None) \<and>
   (\<exists>self'. calc_and_check_parameters (init (joint45 5 44 20 2)) =
       Inr (Some (InterTailCutTooNarrow 2 3.8 5), self')) \<and>
   (\<exists>self'. calc_and_check_parameters (init (joint45 5 150 20 2)) = Inr (None, self'))"
proof -
  have v: "valid (opts (init (joint45 pt w wt n)))"
    if "0 < pt" "0 < w" "0 < wt" "1 \<le> n" for pt w wt n
    using that by (simp add: valid_def init_def joint45_def)
  have e: "spec_upper_tail_diameter (joint45 pt w wt n) = 13.8 - 2 * pt"
    "spec_smaller_tail_width (joint45 pt w wt n) = wt - 2 * pt"
    "width (joint45 pt w wt n) = w" "pin_bit_diameter (joint45 pt w wt n) = 8"
    "cut_angle (joint45 pt w wt n) = 45" "tail_bit_diameter (joint45 pt w wt n) = 13.8"
    "pin_thickness (joint45 pt w wt n) = pt" "width_tails (joint45 pt w wt n) = wt"
    "num_tails (joint45 pt w wt n) = n" "opts (init p) = p"
    "smaller_width_tails (init p) = None" "individual_width_of_tail_cut (init p) = None"
    for pt w wt n p
    by (simp_all add: spec_defs joint45_def tan_radians_45 init_def)
  have c: "spec_cumulative_tail_width (joint45 15 30 20 2) = 40"
    "spec_cumulative_tail_width (joint45 5 20 12 2) = 24"
    "spec_cumulative_tail_width (joint45 5 100 20 5) = 120"
    "spec_cumulative_tail_width (joint45 5 44 20 2) = 40"
    "spec_cumulative_tail_width (joint45 5 150 20 2) = 40"
    "spec_individual_inter_tail_cut_width (joint45 5 44 20 2) = 2"
    "spec_individual_inter_tail_cut_width (joint45 5 150 20 2) = 55"
    by (simp_all add: spec_defs joint45_def)
  show ?thesis
    using resolve_first_violation [OF v [of 15 30 20 2]]
      resolve_first_violation [OF v [of 5 20 12 2]]
      resolve_first_violation [OF v [of 5 100 20 5]]
      resolve_first_violation [OF v [of 5 44 20 2]]
      resolve_first_violation [OF v [of 5 150 20 2]]
      v [of 15 30 20 2]
    by (simp add: e c)
qed

text \<open>
  C2: whenever the parameter check succeeds, the stored values are
  upper_tail_diameter = tail_bit_diameter - 2 tan(radians(cut_angle)) pin_thickness,
  smaller_tail_width = tail_width - (tail_bit_diameter - upper_tail_diameter),
  num_tail_cuts = num_tails + 1 for an odd number of tails and num_tails otherwise, and
  individual_inter_tail_cut_width = (board_width - num_tail_cuts tail_width) / num_tail_cuts.
\<close>

theorem resolve_derived_values:
  assumes "calc_and_check_parameters self = Inr (None, self')"
  shows "upper_tail_diameter self' =
           Some (tail_bit_diameter (opts self)
                 - 2 * tan (radians (cut_angle (opts self))) * pin_thickness (opts self)) \<and>
         smaller_width_tails self' =
           Some (width_tails (opts self)
                 - (tail_bit_diameter (opts self)
                    - (tail_bit_diameter (opts self)
                       - 2 * tan (radians (cut_angle (opts self))) * pin_thickness (opts self)))) \<and>
         num_tail_cuts self' =
           (if odd (num_tails (opts self)) then num_tails (opts self) + 1
            else num_tails (opts self)) \<and>
         individual_width_of_tail_cut self' =
           Some ((width (opts self) - real_of_int (num_tail_cuts self') * width_tails (opts self))
                 / real_of_int (num_tail_cuts self')) \<and>
         opts self' = opts self"
  using assms
  by (auto simp add: calc_total Let_def spec_defs num_tail_cuts_def truthy_def
      split: if_splits)

theorem resolve_derived_values_witness:
  "\<exists>self'. calc_and_check_parameters (init (joint45 5 150 20 2)) = Inr (None, self') \<and>
     upper_tail_diameter self' = Some 3.8 \<and> smaller_width_tails self' = Some 10 \<and>
     num_tail_cuts self' = 2 \<and> individual_width_of_tail_cut self' = Some 55"
proof -
  obtain self' where s: "calc_and_check_parameters (init (joint45 5 150 20 2)) = Inr (None, self')"
    by (simp add: calc_total Let_def spec_defs joint45_def init_def tan_radians_45)
  show ?thesis
    using resolve_derived_values [OF s] s
    by (simp add: joint45_def init_def tan_radians_45)
qed

lemma calc_returns:
  "1 \<le> num_tails (opts self) \<Longrightarrow> \<exists>r self'. calc_and_check_parameters self = Inr (r, self')"
  using spec_num_tail_cuts_pos [of "opts self"] by (simp add: calc_total Let_def)


lemma tan_radians_pos: "0 < d \<Longrightarrow> d < 90 \<Longrightarrow> 0 < tan (radians d)"
  using radians_range [of d] by (simp add: tan_gt_zero)





lemma calc_joint45_diameter:
  "13.8 \<le> 2 * pt \<Longrightarrow>
   calc_and_check_parameters (init (joint45 pt w wt n)) =
     Inr (Some (DiameterNonPositive 45 13.8 pt),
          \<lparr> opts = joint45 pt w wt n, tan_cut_angle = Some 1,
            is_odd_number_of_tails = Some (odd n), upper_tail_diameter = Some (13.8 - 2 * pt),
            smaller_width_tails = None, individual_width_of_tail_cut = None \<rparr>)"
  by (simp add: calc_total Let_def spec_defs joint45_def init_def tan_radians_45)

section \<open>The effect on a failed check\<close>

text \<open>
  C3: when the parameter check returns a message, the effect returns with the layer as it
  was: no rectangle, path, anchor or text element is added, and the only change to the host
  is that one message passed to \<^verbatim>\<open>errormsg\<close>.
\<close>

theorem failure_emits_no_shape:
  assumes "calc_and_check_parameters self = Inr (Some msg, self')"
  shows "\<exists>doc'. shaper_effect self doc = Some (Inr (self', doc')) \<and>
           layer doc' = layer doc \<and> errormsgs doc' = errormsgs doc @ [msg] \<and>
           inkscape_scale doc' = inkscape_scale doc"
  using assms by (simp add: shaper_effect_def)

theorem failure_emits_no_shape_witness:
  "shaper_effect (init (joint45 15 30 20 2)) empty_doc =
     Some (Inr (\<lparr> opts = joint45 15 30 20 2, tan_cut_angle = Some 1,
                  is_odd_number_of_tails = Some False, upper_tail_diameter = Some (- 16.2),
                  smaller_width_tails = None, individual_width_of_tail_cut = None \<rparr>,
                \<lparr> inkscape_scale = 1, layer = [],
                  errormsgs = [DiameterNonPositive 45 13.8 15] \<rparr>))"
proof -
  have c: "calc_and_check_parameters (init (joint45 15 30 20 2)) =
     Inr (Some (DiameterNonPositive 45 13.8 15),
          \<lparr> opts = joint45 15 30 20 2, tan_cut_angle = Some 1,
            is_odd_number_of_tails = Some False, upper_tail_diameter = Some (- 16.2),
            smaller_width_tails = None, individual_width_of_tail_cut = None \<rparr>)"
    using calc_joint45_diameter [of 15 30 20 2] by simp
  obtain doc' where d: "shaper_effect (init (joint45 15 30 20 2)) empty_doc =
      Some (Inr (\<lparr> opts = joint45 15 30 20 2, tan_cut_angle = Some 1,
                  is_odd_number_of_tails = Some False, upper_tail_diameter = Some (- 16.2),
                  smaller_width_tails = None, individual_width_of_tail_cut = None \<rparr>, doc'))"
    "layer doc' = layer empty_doc"
    "errormsgs doc' = errormsgs empty_doc @ [DiameterNonPositive 45 13.8 15]"
    "inkscape_scale doc' = inkscape_scale empty_doc"
    using failure_emits_no_shape [OF c, of empty_doc] by blast
  have "doc' = \<lparr> inkscape_scale = 1, layer = [], errormsgs = [DiameterNonPositive 45 13.8 15] \<rparr>"
    using d(2,3,4) by (cases doc') (simp add: empty_doc_def)
  with d(1) show ?thesis by simp
qed

section \<open>The number of cuts and the division\<close>

text \<open>
  C9, as stated, says that with num_tails = 0 the check never returns a message. It returns
  one when one of the first two checks fails, since both come before the division:
\<close>

theorem zero_tails_counterexample:
  "num_tails (joint45 15 150 20 0) = 0 \<and>
   calc_and_check_parameters (init (joint45 15 150 20 0)) =
     Inr (Some (DiameterNonPositive 45 13.8 15),
          \<lparr> opts = joint45 15 150 20 0, tan_cut_angle = Some 1,
            is_odd_number_of_tails = Some False, upper_tail_diameter = Some (- 16.2),
            smaller_width_tails = None, individual_width_of_tail_cut = None \<rparr>)"
  using calc_joint45_diameter [of 15 150 20 0] by (simp add: joint45_def)

text \<open>
  C9, amended: with num_tails >= 1 the number of tail cuts is at least 1 and the check
  returns, so the division is defined; the assertion before the division never fails; with
  num_tails = 0 and a positive board width, once the first two checks (DiameterNonPositive,
  TailNarrowerThanPinBit) have passed, the check returns no message and divides by zero.
\<close>

theorem tail_cuts_division:
  "(1 \<le> num_tails (opts self) \<longrightarrow>
      1 \<le> num_tail_cuts self \<and> (\<exists>r self'. calc_and_check_parameters self = Inr (r, self'))) \<and>
   calc_and_check_parameters self \<noteq> Inl AssertionError \<and>
   (num_tails (opts self) = 0 \<and> 0 < width (opts self) \<and>
    0 < spec_upper_tail_diameter (opts self) \<and>
    pin_bit_diameter (opts self) \<le> spec_smaller_tail_width (opts self) \<longrightarrow>
      calc_and_check_parameters self = Inl ZeroDivisionError)"
proof -
  have "1 \<le> num_tail_cuts self" if "1 \<le> num_tails (opts self)"
    using that by (simp add: num_tail_cuts_def)
  moreover have "calc_and_check_parameters self \<noteq> Inl AssertionError"
    by (simp add: calc_total Let_def)
  moreover have "calc_and_check_parameters self = Inl ZeroDivisionError"
    if "num_tails (opts self) = 0" "0 < width (opts self)"
      "0 < spec_upper_tail_diameter (opts self)"
      "pin_bit_diameter (opts self) \<le> spec_smaller_tail_width (opts self)"
    using that
    by (simp add: calc_total Let_def spec_num_tail_cuts_def spec_cumulative_tail_width_def)
  ultimately show ?thesis
    using calc_returns [of self] by blast
qed

theorem tail_cuts_division_witness:
  "1 \<le> num_tails (opts (init (joint45 5 150 20 2))) \<and>
   1 \<le> num_tail_cuts (init (joint45 5 150 20 2)) \<and>
   (\<exists>r self'. calc_and_check_parameters (init (joint45 5 150 20 2)) = Inr (r, self')) \<and>
   num_tails (opts (init (joint45 5 150 20 0))) = 0 \<and>
   calc_and_check_parameters (init (joint45 5 150 20 0)) = Inl ZeroDivisionError"
proof -
  have e: "opts (init p) = p" "num_tails (joint45 pt w wt n) = n" "width (joint45 pt w wt n) = w"
    "pin_bit_diameter (joint45 pt w wt n) = 8"
    "spec_upper_tail_diameter (joint45 pt w wt n) = 13.8 - 2 * pt"
    "spec_smaller_tail_width (joint45 pt w wt n) = wt - 2 * pt" for p pt w wt n
    by (simp_all add: init_def joint45_def spec_defs tan_radians_45)
  show ?thesis
    using tail_cuts_division [of "init (joint45 5 150 20 2)"]
      tail_cuts_division [of "init (joint45 5 150 20 0)"]
    by (simp add: e)
qed

section \<open>The loops of the layout\<close>

lemma du2uu_layer_add [simp]: "du2uu (layer_add doc s) = du2uu doc"
  by (rule ext) (simp add: du2uu_def layer_add_def)

lemma du2uu_points_layer_add [simp]: "du2uu_points (layer_add doc s) = du2uu_points doc"
  by (rule ext) (simp add: du2uu_points_def)

lemma du2uu_layer_update [simp]: "du2uu (doc\<lparr>layer := l\<rparr>) = du2uu doc"
  by (rule ext) (simp add: du2uu_def)

lemma du2uu_points_layer_update [simp]: "du2uu_points (doc\<lparr>layer := l\<rparr>) = du2uu_points doc"
  by (rule ext) (simp add: du2uu_points_def)

lemma pin_cut_layer [simp]: "pin_cut (doc\<lparr>layer := l\<rparr>) = pin_cut doc"
  by (rule ext) (simp add: pin_cut_def)

lemma tail_cut_layer [simp]: "tail_cut self (doc\<lparr>layer := l\<rparr>) = tail_cut self doc"
  by (rule ext)+ (simp add: tail_cut_def)

lemma add_polygon_eq: "add_polygon self doc cs = doc\<lparr>layer := layer doc @ [pin_cut doc cs]\<rparr>"
  by (simp add: add_polygon_def pin_cut_def layer_add_def to_path_element_def)

lemma add_box_tail_cut:
  "x0 \<le> x1 \<Longrightarrow> start_y \<le> end_y \<Longrightarrow>
   add_box doc x0 start_y x1 end_y INTERIOR (Some (pin_thickness (opts self))) =
     doc\<lparr>layer := layer doc @ [tail_cut self doc start_y end_y x0 x1]\<rparr>"
  by (simp add: add_box_def tail_cut_def layer_add_def add_depth_info_def Let_def min_def)

lemma map_upt_Suc_shift: "map f [0..<Suc k] = f 0 # map (\<lambda>j. f (Suc j)) [0..<k]"
  by (simp add: upt_conv_Cons map_Suc_upt [symmetric] del: upt_Suc)

lemma pin_cuts_for_layer:
  assumes "smaller_width_tails self = Some swt" and "individual_width_of_tail_cut self = Some iw"
  shows "pin_cuts_for self delta_x start_y end_y k x doc =
     Inr (doc\<lparr>layer := layer doc @
        map (\<lambda>j. pin_cut doc
               (trapezoid swt (width_tails (opts self)) delta_x start_y end_y
                  (x + real j * (iw + width_tails (opts self))))) [0..<k]\<rparr>)"
proof (induction k arbitrary: x doc)
  case 0
  show ?case by simp
next
  case (Suc k)
  have shift: "x + real (Suc j) * (iw + width_tails (opts self)) =
        x + iw + width_tails (opts self) + real j * (iw + width_tails (opts self))" for j
    by (simp add: algebra_simps)
  show ?case
    using assms
    by (simp add: Suc.IH add_polygon_eq trapezoid_def [symmetric] map_upt_Suc_shift shift
        del: upt_Suc of_nat_Suc)
qed


lemma tail_cuts_for_layer:
  assumes "individual_width_of_tail_cut self = Some iw" and "0 \<le> iw" and "start_y \<le> end_y"
  shows "tail_cuts_for self start_y end_y k x doc =
     Inr (doc\<lparr>layer := layer doc @
        map (\<lambda>j. tail_cut self doc start_y end_y
               (x + real j * (iw + width_tails (opts self)))
               (x + real j * (iw + width_tails (opts self)) + iw)) [0..<k]\<rparr>)"
proof (induction k arbitrary: x doc)
  case 0
  show ?case by simp
next
  case (Suc k)
  have shift: "x + real (Suc j) * (iw + width_tails (opts self)) =
        x + iw + width_tails (opts self) + real j * (iw + width_tails (opts self))" for j
    by (simp add: algebra_simps)
  have box: "add_box doc x start_y (x + iw) end_y INTERIOR (Some (pin_thickness (opts self))) =
     doc\<lparr>layer := layer doc @ [tail_cut self doc start_y end_y x (x + iw)]\<rparr>"
    using assms by (simp add: add_box_tail_cut)
  show ?case
    using assms
    by (simp add: Suc.IH box map_upt_Suc_shift shift del: upt_Suc of_nat_Suc)
qed

lemma tail_cuts_while_layer:
  assumes "individual_width_of_tail_cut self = Some iw" and "0 \<le> iw" and "start_y \<le> end_y"
      and "\<forall>j<k. x + real j * (iw + width_tails (opts self)) < width (opts self)"
      and "\<not> x + real k * (iw + width_tails (opts self)) < width (opts self)"
  shows "tail_cuts_while self start_y end_y x doc =
     Some (Inr (doc\<lparr>layer := layer doc @
        map (\<lambda>j. tail_cut self doc start_y end_y
               (x + real j * (iw + width_tails (opts self)))
               (x + real j * (iw + width_tails (opts self)) + iw)) [0..<k]\<rparr>))"
  using assms(4,5)
proof (induction k arbitrary: x doc)
  case 0
  then show ?case
    by (subst tail_cuts_while.simps) simp
next
  case (Suc k)
  have shift: "x + real (Suc j) * (iw + width_tails (opts self)) =
        x + iw + width_tails (opts self) + real j * (iw + width_tails (opts self))" for j
    by (simp add: algebra_simps)
  have box: "add_box doc x start_y (x + iw) end_y INTERIOR (Some (pin_thickness (opts self))) =
     doc\<lparr>layer := layer doc @ [tail_cut self doc start_y end_y x (x + iw)]\<rparr>"
    using assms(1-3) by (simp add: add_box_tail_cut)
  have here: "x < width (opts self)"
    using Suc.prems(1) by force
  have rest: "\<forall>j<k. x + iw + width_tails (opts self) + real j * (iw + width_tails (opts self))
                 < width (opts self)"
    using Suc.prems(1) by (auto simp add: shift [symmetric] simp del: of_nat_Suc)
  have stop: "\<not> x + iw + width_tails (opts self) + real k * (iw + width_tails (opts self))
                 < width (opts self)"
    using Suc.prems(2) by (simp add: shift [symmetric] del: of_nat_Suc)
  show ?case
    using assms(1) here Suc.IH [OF rest stop]
    by (subst tail_cuts_while.simps)
      (simp add: box map_upt_Suc_shift shift del: upt_Suc of_nat_Suc)
qed


section \<open>The state after a successful check\<close>

lemma validated:
  assumes "calc_and_check_parameters self = Inr (None, self')"
  shows "opts self' = opts self"
    and "tan_cut_angle self' = Some (tan (radians (cut_angle (opts self))))"
    and "is_odd_number_of_tails self' = Some (odd (num_tails (opts self)))"
    and "upper_tail_diameter self' = Some (spec_upper_tail_diameter (opts self))"
    and "smaller_width_tails self' = Some (spec_smaller_tail_width (opts self))"
    and "individual_width_of_tail_cut self' =
           Some (spec_individual_inter_tail_cut_width (opts self))"
    and "0 < spec_upper_tail_diameter (opts self)"
    and "pin_bit_diameter (opts self) \<le> spec_smaller_tail_width (opts self)"
    and "spec_cumulative_tail_width (opts self) < width (opts self)"
    and "spec_upper_tail_diameter (opts self) \<le> spec_individual_inter_tail_cut_width (opts self)"
    and "spec_num_tail_cuts (opts self) \<noteq> 0"
  using assms by (auto simp add: calc_total Let_def split: if_splits)

text \<open>With a positive number of cuts, the cut and the tail together take the board width
  divided by the number of cuts.\<close>

lemma step_times_cuts:
  assumes "0 < spec_num_tail_cuts p"
  shows "real_of_int (spec_num_tail_cuts p)
           * (spec_individual_inter_tail_cut_width p + width_tails p) = width p"
  using assms
  by (simp add: spec_individual_inter_tail_cut_width_def spec_cumulative_tail_width_def
      field_simps)


lemmas layout_defs = overcut_buffer_def spec_delta_x_def pin_start_y_def pin_end_y_def
  tail_start_y_def tail_end_y_def spacing_def pin_centre_def left_half_tail_def
  right_half_tail_def full_tail_def tail_cut_left_def OVERCUTTING_BUFFER_FACTOR_def
  LOWER_OVERCUTTING_BUFFER_DOVETAIL_BIT_FACTOR_def HORIZONTAL_BUFFER_def

lemma tail_cut_opts: "opts s = opts s' \<Longrightarrow> tail_cut s = tail_cut s'"
  by (rule ext)+ (simp add: tail_cut_def)

lemma add_pin_cuts_validated:
  assumes "calc_and_check_parameters self = Inr (None, self')"
  shows "add_pin_cuts self' doc =
     Inr (pin_end_y (opts self),
          doc\<lparr>layer := layer doc @
             (if odd (num_tails (opts self))
              then [pin_cut doc (left_half_tail (opts self)),
                    pin_cut doc (right_half_tail (opts self))]
              else []) @
             map (\<lambda>j. pin_cut doc (full_tail (opts self) (pin_centre (opts self) j)))
               [0..<nat (num_tails (opts self))]\<rparr>)"
proof -
  note v = validated [OF assms]
  show ?thesis
    by (simp add: add_pin_cuts_def Let_def v(1-6) truthy_def pin_cuts_for_layer [OF v(5,6)]
        add_polygon_eq layout_defs add.commute)
qed


lemma while_bounds:
  assumes "valid p" and "odd (num_tails p)"
      and "0 \<le> spec_individual_inter_tail_cut_width p"
  shows "\<forall>j<nat (num_tails p + 1). width_tails p / 2 + real j * spacing p < width p"
    and "\<not> width_tails p / 2 + real (nat (num_tails p + 1)) * spacing p < width p"
proof -
  from assms(1) have n: "1 \<le> num_tails p" and wt: "0 < width_tails p"
    by (simp_all add: valid_def)
  have cuts: "spec_num_tail_cuts p = num_tails p + 1"
    using assms(2) by (simp add: spec_num_tail_cuts_def)
  have k: "real (nat (num_tails p + 1)) = real_of_int (spec_num_tail_cuts p)"
    using n cuts by simp
  have total: "real (nat (num_tails p + 1)) * spacing p = width p"
    using step_times_cuts [of p] n cuts k by (simp add: spacing_def)
  have pos: "0 < spacing p"
    using assms(3) wt by (simp add: spacing_def)
  show "\<not> width_tails p / 2 + real (nat (num_tails p + 1)) * spacing p < width p"
    using total wt by simp
  show "\<forall>j<nat (num_tails p + 1). width_tails p / 2 + real j * spacing p < width p"
  proof (intro allI impI)
    fix j assume "j < nat (num_tails p + 1)"
    then have "real j \<le> real (nat (num_tails p + 1)) - 1"
      by linarith
    then have "real j * spacing p \<le> (real (nat (num_tails p + 1)) - 1) * spacing p"
      using pos by (simp add: mult_right_mono)
    also have "\<dots> = width p - spacing p"
      using total by (simp add: algebra_simps)
    finally show "width_tails p / 2 + real j * spacing p < width p"
      using assms(3) wt by (simp add: spacing_def)
  qed
qed

lemma tail_cuts_while_validated:
  assumes "valid (opts self)" and "calc_and_check_parameters self = Inr (None, self')"
      and "odd (num_tails (opts self))"
  shows "tail_cuts_while self' (tail_start_y (opts self) y_origin)
        (tail_end_y (opts self) y_origin) (width_tails (opts self) / 2) doc =
      Some (Inr (doc\<lparr>layer := layer doc @
        map (\<lambda>j. tail_cut self doc (tail_start_y (opts self) y_origin)
                    (tail_end_y (opts self) y_origin)
                    (tail_cut_left (opts self) j)
                    (tail_cut_left (opts self) j
                       + spec_individual_inter_tail_cut_width (opts self)))
          [0..<nat (num_tails (opts self) + 1)]\<rparr>))"
proof -
  note v = validated [OF assms(2)]
  have tc: "tail_cut self' = tail_cut self"
    using v(1) by (rule tail_cut_opts)
  have iw: "0 \<le> spec_individual_inter_tail_cut_width (opts self)"
    using v(7,10) by simp
  have y: "tail_start_y (opts self) y_origin \<le> tail_end_y (opts self) y_origin"
    using assms(1) by (simp add: valid_def tail_start_y_def tail_end_y_def)
  show ?thesis
    using tail_cuts_while_layer [of self' "spec_individual_inter_tail_cut_width (opts self)"
        "tail_start_y (opts self) y_origin" "tail_end_y (opts self) y_origin"
        "nat (num_tails (opts self) + 1)" "width_tails (opts self) / 2" doc]
      while_bounds [OF assms(1,3) iw] v(6) iw y assms(3)
    by (simp add: v(1) tc tail_cut_left_def spacing_def)
qed

lemma add_tail_cuts_validated:
  assumes "valid (opts self)" and "calc_and_check_parameters self = Inr (None, self')"
  shows "add_tail_cuts self' y_origin doc =
     Some (Inr (tail_end_y (opts self) y_origin,
          doc\<lparr>layer := layer doc @
             (if odd (num_tails (opts self)) then []
              else [tail_cut self doc (tail_start_y (opts self) y_origin)
                      (tail_end_y (opts self) y_origin)
                      (- 2) (spec_individual_inter_tail_cut_width (opts self) / 2),
                    tail_cut self doc (tail_start_y (opts self) y_origin)
                      (tail_end_y (opts self) y_origin)
                      (width (opts self) - spec_individual_inter_tail_cut_width (opts self) / 2)
                      (width (opts self) + 2)]) @
             map (\<lambda>j. tail_cut self doc (tail_start_y (opts self) y_origin)
                         (tail_end_y (opts self) y_origin)
                         (tail_cut_left (opts self) j)
                         (tail_cut_left (opts self) j
                            + spec_individual_inter_tail_cut_width (opts self)))
               [0..<(if odd (num_tails (opts self)) then nat (num_tails (opts self) + 1)
                     else nat (num_tails (opts self) - 1))]\<rparr>))"
proof -
  note v = validated [OF assms(2)]
  have tc: "tail_cut self' = tail_cut self"
    using v(1) by (rule tail_cut_opts)
  have iw: "0 \<le> spec_individual_inter_tail_cut_width (opts self)"
    using v(7,10) by simp
  have y: "tail_start_y (opts self) y_origin \<le> tail_end_y (opts self) y_origin"
    using assms(1) by (simp add: valid_def tail_start_y_def tail_end_y_def)
  have y': "y_origin - tail_bit_diameter (opts self) * OVERCUTTING_BUFFER_FACTOR =
      tail_start_y (opts self) y_origin"
    "y_origin + tail_thickness (opts self)
       + tail_bit_diameter (opts self) * LOWER_OVERCUTTING_BUFFER_DOVETAIL_BIT_FACTOR =
      tail_end_y (opts self) y_origin"
    by (simp_all add: layout_defs)
  show ?thesis
  proof (cases "odd (num_tails (opts self))")
    case True
    note w = tail_cuts_while_validated [OF assms True, of y_origin doc]
    show ?thesis
      using True by (simp add: add_tail_cuts_def Let_def v(1,3) truthy_def y' w)
  next
    case False
    have f: "tail_cuts_for self' (tail_start_y (opts self) y_origin)
        (tail_end_y (opts self) y_origin) k x d =
      Inr (d\<lparr>layer := layer d @
        map (\<lambda>j. tail_cut self d (tail_start_y (opts self) y_origin)
                    (tail_end_y (opts self) y_origin)
                    (x + real j * spacing (opts self))
                    (x + real j * spacing (opts self)
                       + spec_individual_inter_tail_cut_width (opts self)))
          [0..<k]\<rparr>)" for k x d
      using tail_cuts_for_layer [OF v(6) iw y, of k x d]
      by (simp add: v(1) tc spacing_def)
    have b1: "add_box doc (- HORIZONTAL_BUFFER) (tail_start_y (opts self) y_origin)
        (spec_individual_inter_tail_cut_width (opts self) / 2)
        (tail_end_y (opts self) y_origin) INTERIOR (Some (pin_thickness (opts self))) =
      doc\<lparr>layer := layer doc @ [tail_cut self doc (tail_start_y (opts self) y_origin)
                      (tail_end_y (opts self) y_origin)
                      (- 2) (spec_individual_inter_tail_cut_width (opts self) / 2)]\<rparr>"
      using iw y by (simp add: add_box_tail_cut HORIZONTAL_BUFFER_def)
    have b2: "add_box d (width (opts self) - spec_individual_inter_tail_cut_width (opts self) / 2)
        (tail_start_y (opts self) y_origin) (width (opts self) + HORIZONTAL_BUFFER)
        (tail_end_y (opts self) y_origin) INTERIOR (Some (pin_thickness (opts self))) =
      d\<lparr>layer := layer d @ [tail_cut self d (tail_start_y (opts self) y_origin)
                      (tail_end_y (opts self) y_origin)
                      (width (opts self) - spec_individual_inter_tail_cut_width (opts self) / 2)
                      (width (opts self) + 2)]\<rparr>" for d
      using iw y by (simp add: add_box_tail_cut HORIZONTAL_BUFFER_def)
    show ?thesis
      using False
      by (simp add: add_tail_cuts_def Let_def v(1,3,6) truthy_def y' b1 b2 f tail_cut_left_def)
  qed
qed

section \<open>Concrete runs\<close>

lemma valid_joint45:
  "0 < pt \<Longrightarrow> 0 < w \<Longrightarrow> 0 < wt \<Longrightarrow> 1 \<le> n \<Longrightarrow> valid (opts (init (joint45 pt w wt n)))"
  by (simp add: valid_def init_def joint45_def)

lemma calc_joint45_even:
  "calc_and_check_parameters (init (joint45 5 150 20 2)) = Inr (None, resolved45 5 150 20 2 55)"
  by (simp add: calc_total Let_def spec_defs joint45_def init_def tan_radians_45 resolved45_def)

lemma calc_joint45_odd:
  "calc_and_check_parameters (init (joint45 5 48 20 1)) = Inr (None, resolved45 5 48 20 1 4)"
  by (simp add: calc_total Let_def spec_defs joint45_def init_def tan_radians_45 resolved45_def)

lemma joint45_sel [simp]:
  "opts (init p) = p" "num_tails (joint45 pt w wt n) = n" "width (joint45 pt w wt n) = w"
  "pin_bit_diameter (joint45 pt w wt n) = 8" "tail_bit_diameter (joint45 pt w wt n) = 13.8"
  "pin_thickness (joint45 pt w wt n) = pt" "width_tails (joint45 pt w wt n) = wt"
  "tail_thickness (joint45 pt w wt n) = 15" "cut_angle (joint45 pt w wt n) = 45"
  by (simp_all add: init_def joint45_def)

lemma empty_doc_sel [simp]:
  "layer empty_doc = []" "inkscape_scale empty_doc = 1" "errormsgs empty_doc = []"
  "du2uu empty_doc x = x"
  by (simp_all add: empty_doc_def du2uu_def)

section \<open>The tail board\<close>

text \<open>
  C10: for validated parameters the tail board gets exactly num_tails + 1 rectangles, all
  of routing type INTERIOR: for an even number of tails, the two rectangles at the board's
  edges (half a cut wide inside the board, plus the horizontal buffer) and num_tails - 1
  rectangles between them; for an odd number, the while loop, whose step is positive,
  returns after adding num_tails + 1 rectangles.
\<close>

theorem tail_board_cut_count:
  assumes "valid (opts self)" and "calc_and_check_parameters self = Inr (None, self')"
  shows "\<exists>cuts. add_tail_cuts self' y_origin doc =
             Some (Inr (tail_end_y (opts self) y_origin, doc\<lparr>layer := layer doc @ cuts\<rparr>)) \<and>
           length cuts = nat (num_tails (opts self) + 1) \<and>
           (\<forall>c\<in>set cuts. is_Rectangle c \<and> routing c = INTERIOR) \<and>
           0 < spec_individual_inter_tail_cut_width (opts self) + width_tails (opts self) \<and>
           (even (num_tails (opts self)) \<longrightarrow>
              (\<exists>left right between. cuts = [left, right] @ between \<and>
                 length between = nat (num_tails (opts self) - 1) \<and>
                 rect_width left =
                   du2uu doc (spec_individual_inter_tail_cut_width (opts self) / 2 + 2) \<and>
                 rect_width right =
                   du2uu doc (spec_individual_inter_tail_cut_width (opts self) / 2 + 2) \<and>
                 (\<forall>c\<in>set between.
                    rect_width c = du2uu doc (spec_individual_inter_tail_cut_width (opts self))))) \<and>
           (odd (num_tails (opts self)) \<longrightarrow>
              tail_cuts_while self' (tail_start_y (opts self) y_origin)
                (tail_end_y (opts self) y_origin) (width_tails (opts self) / 2) doc =
                Some (Inr (doc\<lparr>layer := layer doc @ cuts\<rparr>)) \<and>
              (\<forall>c\<in>set cuts.
                 rect_width c = du2uu doc (spec_individual_inter_tail_cut_width (opts self))))"
proof -
  note v = validated [OF assms(2)]
  note t = add_tail_cuts_validated [OF assms, of y_origin doc]
  from assms(1) have n: "1 \<le> num_tails (opts self)" and wt: "0 < width_tails (opts self)"
    by (simp_all add: valid_def)
  have iw: "0 < spec_individual_inter_tail_cut_width (opts self)"
    using v(7,10) by simp
  show ?thesis
  proof (cases "odd (num_tails (opts self))")
    case True
    define cuts where "cuts =
      map (\<lambda>j. tail_cut self doc (tail_start_y (opts self) y_origin)
                  (tail_end_y (opts self) y_origin) (tail_cut_left (opts self) j)
                  (tail_cut_left (opts self) j
                     + spec_individual_inter_tail_cut_width (opts self)))
        [0..<nat (num_tails (opts self) + 1)]"
    have 1: "add_tail_cuts self' y_origin doc =
        Some (Inr (tail_end_y (opts self) y_origin, doc\<lparr>layer := layer doc @ cuts\<rparr>))"
      using t True by (simp add: cuts_def)
    have 2: "tail_cuts_while self' (tail_start_y (opts self) y_origin)
        (tail_end_y (opts self) y_origin) (width_tails (opts self) / 2) doc =
        Some (Inr (doc\<lparr>layer := layer doc @ cuts\<rparr>))"
      using tail_cuts_while_validated [OF assms True, of y_origin doc] by (simp add: cuts_def)
    have 3: "length cuts = nat (num_tails (opts self) + 1)"
      by (simp add: cuts_def)
    have 4: "\<forall>c\<in>set cuts. is_Rectangle c \<and> routing c = INTERIOR \<and>
        rect_width c = du2uu doc (spec_individual_inter_tail_cut_width (opts self))"
      by (auto simp add: cuts_def tail_cut_def)
    show ?thesis
      using True 1 2 3 4 iw wt by (intro exI [of _ cuts]) simp
  next
    case False
    define left where "left =
      tail_cut self doc (tail_start_y (opts self) y_origin) (tail_end_y (opts self) y_origin)
        (- 2) (spec_individual_inter_tail_cut_width (opts self) / 2)"
    define right where "right =
      tail_cut self doc (tail_start_y (opts self) y_origin) (tail_end_y (opts self) y_origin)
        (width (opts self) - spec_individual_inter_tail_cut_width (opts self) / 2)
        (width (opts self) + 2)"
    define between where "between =
      map (\<lambda>j. tail_cut self doc (tail_start_y (opts self) y_origin)
                  (tail_end_y (opts self) y_origin) (tail_cut_left (opts self) j)
                  (tail_cut_left (opts self) j
                     + spec_individual_inter_tail_cut_width (opts self)))
        [0..<nat (num_tails (opts self) - 1)]"
    have 1: "add_tail_cuts self' y_origin doc =
        Some (Inr (tail_end_y (opts self) y_origin,
                   doc\<lparr>layer := layer doc @ [left, right] @ between\<rparr>))"
      using t False by (simp add: left_def right_def between_def)
    have 3: "length between = nat (num_tails (opts self) - 1)"
      by (simp add: between_def)
    have 4: "\<forall>c\<in>set between. is_Rectangle c \<and> routing c = INTERIOR \<and>
        rect_width c = du2uu doc (spec_individual_inter_tail_cut_width (opts self))"
      by (auto simp add: between_def tail_cut_def)
    have 5: "is_Rectangle left" "routing left = INTERIOR"
      "rect_width left = du2uu doc (spec_individual_inter_tail_cut_width (opts self) / 2 + 2)"
      "is_Rectangle right" "routing right = INTERIOR"
      "rect_width right = du2uu doc (spec_individual_inter_tail_cut_width (opts self) / 2 + 2)"
      by (simp_all add: left_def right_def tail_cut_def add.commute)
    have 6: "length ([left, right] @ between) = nat (num_tails (opts self) + 1)"
      using n 3 by simp
    show ?thesis
      using False 1 3 4 5 6 iw wt by (intro exI [of _ "[left, right] @ between"]) simp
  qed
qed


theorem tail_board_cut_count_witness:
  "valid (opts (init (joint45 5 150 20 2))) \<and>
   calc_and_check_parameters (init (joint45 5 150 20 2)) = Inr (None, resolved45 5 150 20 2 55) \<and>
   (\<exists>cuts. add_tail_cuts (resolved45 5 150 20 2 55) 0 empty_doc =
       Some (Inr (28.8, empty_doc\<lparr>layer := cuts\<rparr>)) \<and> length cuts = 3 \<and>
       (\<forall>c\<in>set cuts. is_Rectangle c \<and> routing c = INTERIOR)) \<and>
   valid (opts (init (joint45 5 48 20 1))) \<and>
   calc_and_check_parameters (init (joint45 5 48 20 1)) = Inr (None, resolved45 5 48 20 1 4) \<and>
   (\<exists>cuts. add_tail_cuts (resolved45 5 48 20 1 4) 0 empty_doc =
       Some (Inr (28.8, empty_doc\<lparr>layer := cuts\<rparr>)) \<and> length cuts = 2 \<and>
       (\<forall>c\<in>set cuts. is_Rectangle c \<and> routing c = INTERIOR \<and> rect_width c = 4))"
proof -
  have ve: "valid (opts (init (joint45 5 150 20 2)))"
    by (rule valid_joint45) simp_all
  have vo: "valid (opts (init (joint45 5 48 20 1)))"
    by (rule valid_joint45) simp_all
  have iw: "spec_individual_inter_tail_cut_width (joint45 5 48 20 1) = 4"
    by (simp add: spec_defs)
  obtain ce where e: "add_tail_cuts (resolved45 5 150 20 2 55) 0 empty_doc =
       Some (Inr (28.8, empty_doc\<lparr>layer := ce\<rparr>))" "length ce = 3"
       "\<forall>c\<in>set ce. is_Rectangle c \<and> routing c = INTERIOR"
    using tail_board_cut_count [OF ve calc_joint45_even, of 0 empty_doc]
    by (auto simp add: tail_end_y_def)
  obtain co where o: "add_tail_cuts (resolved45 5 48 20 1 4) 0 empty_doc =
       Some (Inr (28.8, empty_doc\<lparr>layer := co\<rparr>))" "length co = 2"
       "\<forall>c\<in>set co. is_Rectangle c \<and> routing c = INTERIOR \<and> rect_width c = 4"
    using tail_board_cut_count [OF vo calc_joint45_odd, of 0 empty_doc]
    by (auto simp add: tail_end_y_def iw)
  show ?thesis
    using ve vo calc_joint45_even calc_joint45_odd e o by blast
qed

section \<open>The pin board\<close>

text \<open>
  C6: for validated parameters with an even number of tails, the pin board gets exactly one
  trapezoid per tail, the trapezoid number i (from 0) being centred at \<open>pin_centre p i\<close>
  (the midpoint of both its edges), and the centres number i and num_tails - 1 - i sum to the
  board width: the centres are symmetric about width / 2.
\<close>

theorem pin_centres_symmetric:
  assumes "valid (opts self)" and "calc_and_check_parameters self = Inr (None, self')"
      and "even (num_tails (opts self))"
  shows "add_pin_cuts self' doc =
           Inr (pin_end_y (opts self),
                doc\<lparr>layer := layer doc @
                   map (\<lambda>i. pin_cut doc (full_tail (opts self) (pin_centre (opts self) i)))
                     [0..<nat (num_tails (opts self))]\<rparr>) \<and>
         (\<forall>i<nat (num_tails (opts self)).
            (fst (full_tail (opts self) (pin_centre (opts self) i) ! 0)
             + fst (full_tail (opts self) (pin_centre (opts self) i) ! 1)) / 2
              = pin_centre (opts self) i \<and>
            (fst (full_tail (opts self) (pin_centre (opts self) i) ! 3)
             + fst (full_tail (opts self) (pin_centre (opts self) i) ! 2)) / 2
              = pin_centre (opts self) i \<and>
            pin_centre (opts self) i
              + pin_centre (opts self) (nat (num_tails (opts self)) - 1 - i)
              = width (opts self))"
proof -
  note v = validated [OF assms(2)]
  from assms(1) have n: "1 \<le> num_tails (opts self)"
    by (simp add: valid_def)
  have cuts: "spec_num_tail_cuts (opts self) = num_tails (opts self)"
    using assms(3) by (simp add: spec_num_tail_cuts_def)
  have total: "real_of_int (num_tails (opts self)) * spacing (opts self) = width (opts self)"
    using step_times_cuts [of "opts self"] n cuts by (simp add: spacing_def)
  have sym: "pin_centre (opts self) i
      + pin_centre (opts self) (nat (num_tails (opts self)) - 1 - i) = width (opts self)"
    if "i < nat (num_tails (opts self))" for i
  proof -
    have "real (nat (num_tails (opts self)) - 1 - i) =
        real_of_int (num_tails (opts self)) - 1 - real i"
      using that n by (simp add: of_nat_diff)
    then have "pin_centre (opts self) i
        + pin_centre (opts self) (nat (num_tails (opts self)) - 1 - i) =
        real_of_int (num_tails (opts self)) * spacing (opts self)"
      using assms(3) by (simp add: pin_centre_def spacing_def algebra_simps)
    with total show ?thesis by simp
  qed
  have mid: "(fst (full_tail (opts self) x ! 0) + fst (full_tail (opts self) x ! 1)) / 2 = x"
    "(fst (full_tail (opts self) x ! 3) + fst (full_tail (opts self) x ! 2)) / 2 = x" for x
    by (simp_all add: full_tail_def trapezoid_def)
  show ?thesis
    using add_pin_cuts_validated [OF assms(2), of doc] assms(3) sym mid by simp
qed

theorem pin_centres_symmetric_witness:
  "valid (opts (init (joint45 5 150 20 2))) \<and>
   calc_and_check_parameters (init (joint45 5 150 20 2)) = Inr (None, resolved45 5 150 20 2 55) \<and>
   even (num_tails (opts (init (joint45 5 150 20 2)))) \<and>
   pin_centre (joint45 5 150 20 2) 0 = 37.5 \<and> pin_centre (joint45 5 150 20 2) 1 = 112.5 \<and>
   pin_centre (joint45 5 150 20 2) 0 + pin_centre (joint45 5 150 20 2) 1 = 150"
proof -
  have v: "valid (opts (init (joint45 5 150 20 2)))"
    by (rule valid_joint45) simp_all
  have e: "even (num_tails (opts (init (joint45 5 150 20 2))))"
    by simp
  have c: "pin_centre (joint45 5 150 20 2) 0 = 37.5" "pin_centre (joint45 5 150 20 2) 1 = 112.5"
    by (simp_all add: pin_centre_def spacing_def spec_defs)
  have "pin_centre (joint45 5 150 20 2) 0 + pin_centre (joint45 5 150 20 2) 1 = 150"
    using pin_centres_symmetric [OF v calc_joint45_even e, of empty_doc,
        THEN conjunct2, rule_format, of 0]
    by simp
  with v e c calc_joint45_even show ?thesis by blast
qed

section \<open>The cut depth\<close>

lemma round_half_even_of_int [simp]: "round_half_even (real_of_int k) = k"
  by (simp add: round_half_even_def)

lemma format_3f_thousandths: "format_3f (real_of_int k / 1000) = real_of_int k / 1000"
  by (simp add: format_3f_def)

lemma format_3f_5 [simp]: "format_3f 5 = 5"
  using format_3f_thousandths [of 5000] by simp

text \<open>The path element that \<^verbatim>\<open>add_polygon\<close> adds never has a cut depth, whatever the
  thickness of the tail board.\<close>

lemma add_polygon_no_depth:
  "layer (add_polygon self doc args) = layer doc @ [Path (du2uu_points doc args) INTERIOR None]"
  by (simp add: add_polygon_eq pin_cut_def)

text \<open>For validated parameters every cut rectangle of the tail board starts at
  y = - tail_bit_diameter * 0.55 and ends at y = tail_thickness + tail_bit_diameter * 1.0,
  relative to the top edge of the tail board, and its cut depth is the pin board's thickness
  as \<^verbatim>\<open>add_depth_info\<close> writes it.\<close>

lemma tail_cut_extent_and_depth:
  assumes "valid (opts self)" and "calc_and_check_parameters self = Inr (None, self')"
  shows "\<exists>cuts. add_tail_cuts self' y_origin doc =
             Some (Inr (y_origin + tail_thickness (opts self) + tail_bit_diameter (opts self) * 1.0,
                        doc\<lparr>layer := layer doc @ cuts\<rparr>)) \<and>
           cuts \<noteq> [] \<and>
           (\<forall>c\<in>set cuts. is_Rectangle c \<and>
              rect_y c = du2uu doc (y_origin - tail_bit_diameter (opts self) * 0.55) \<and>
              rect_y c + rect_height c =
                du2uu doc (y_origin + tail_thickness (opts self)
                           + tail_bit_diameter (opts self) * 1.0) \<and>
              cut_depth c = Some (format_3f (pin_thickness (opts self)), ''mm''))"
proof -
  from assms(1) have n: "1 \<le> num_tails (opts self)"
    by (simp add: valid_def)
  define cuts where "cuts =
    (if odd (num_tails (opts self)) then []
     else [tail_cut self doc (tail_start_y (opts self) y_origin)
             (tail_end_y (opts self) y_origin)
             (- 2) (spec_individual_inter_tail_cut_width (opts self) / 2),
           tail_cut self doc (tail_start_y (opts self) y_origin)
             (tail_end_y (opts self) y_origin)
             (width (opts self) - spec_individual_inter_tail_cut_width (opts self) / 2)
             (width (opts self) + 2)]) @
    map (\<lambda>j. tail_cut self doc (tail_start_y (opts self) y_origin)
                (tail_end_y (opts self) y_origin)
                (tail_cut_left (opts self) j)
                (tail_cut_left (opts self) j
                   + spec_individual_inter_tail_cut_width (opts self)))
      [0..<(if odd (num_tails (opts self)) then nat (num_tails (opts self) + 1)
            else nat (num_tails (opts self) - 1))]"
  have t: "add_tail_cuts self' y_origin doc =
      Some (Inr (y_origin + tail_thickness (opts self) + tail_bit_diameter (opts self) * 1.0,
                 doc\<lparr>layer := layer doc @ cuts\<rparr>))"
    using add_tail_cuts_validated [OF assms, of y_origin doc]
    by (simp add: cuts_def tail_end_y_def)
  have span: "du2uu doc a + du2uu doc (b - a) = du2uu doc b" for a b
    by (simp add: du2uu_def add_divide_distrib [symmetric])
  define ok where "ok c \<longleftrightarrow> is_Rectangle c \<and>
      rect_y c = du2uu doc (y_origin - tail_bit_diameter (opts self) * 0.55) \<and>
      rect_y c + rect_height c =
        du2uu doc (y_origin + tail_thickness (opts self)
                   + tail_bit_diameter (opts self) * 1.0) \<and>
      cut_depth c = Some (format_3f (pin_thickness (opts self)), ''mm'')" for c
  have tc: "ok (tail_cut self doc (tail_start_y (opts self) y_origin)
                (tail_end_y (opts self) y_origin) x0 x1)" for x0 x1
    using span [of "tail_start_y (opts self) y_origin" "tail_end_y (opts self) y_origin"]
    by (simp add: ok_def tail_cut_def tail_start_y_def tail_end_y_def)
  have "\<forall>c\<in>set cuts. ok c"
    by (auto simp add: cuts_def tc)
  then have c: "\<forall>c\<in>set cuts. is_Rectangle c \<and>
      rect_y c = du2uu doc (y_origin - tail_bit_diameter (opts self) * 0.55) \<and>
      rect_y c + rect_height c =
        du2uu doc (y_origin + tail_thickness (opts self)
                   + tail_bit_diameter (opts self) * 1.0) \<and>
      cut_depth c = Some (format_3f (pin_thickness (opts self)), ''mm'')"
    unfolding ok_def .
  have ne: "cuts \<noteq> []"
    using n by (auto simp add: cuts_def)
  from t c ne show ?thesis
    by blast
qed

text \<open>
  C5: the claim gives every trapezoid of the pin board the cut depth tail_thickness. The
  code sets that depth on the polygon it builds, but adds the path element made from the
  polygon, which does not carry the attribute, while \<^verbatim>\<open>add_box\<close> sets the depth on the
  rectangle it adds. At 45 degrees with pin_thickness 5, two tails 20 wide, a 150 mm board
  and a tail board 15 thick the check succeeds, the two paths of the pin board have no cut
  depth, and the three rectangles of the tail board, laid out from y = 100, run from
  100 - 13.8 * 0.55 = 92.41 to 100 + 15 + 13.8 = 128.8 with the cut depth 5 mm.
\<close>

theorem pin_paths_lose_cut_depth:
  "calc_and_check_parameters (init (joint45 5 150 20 2)) = Inr (None, resolved45 5 150 20 2 55) \<and>
   tail_thickness (opts (resolved45 5 150 20 2 55)) = 15 \<and>
   add_pin_cuts (resolved45 5 150 20 2 55) empty_doc =
     Inr (9.4, \<lparr> inkscape_scale = 1,
                 layer = [Path [(36.9, - 4.4), (38.1, - 4.4), (51.9, 9.4), (23.1, 9.4)]
                            INTERIOR None,
                          Path [(111.9, - 4.4), (113.1, - 4.4), (126.9, 9.4), (98.1, 9.4)]
                            INTERIOR None],
                 errormsgs = [] \<rparr>) \<and>
   add_tail_cuts (resolved45 5 150 20 2 55) 100 empty_doc =
     Some (Inr (128.8, \<lparr> inkscape_scale = 1,
                 layer = [Rectangle (- 2) 92.41 29.5 36.39 INTERIOR (Some (5, ''mm'')),
                          Rectangle 122.5 92.41 29.5 36.39 INTERIOR (Some (5, ''mm'')),
                          Rectangle 47.5 92.41 55 36.39 INTERIOR (Some (5, ''mm''))],
                 errormsgs = [] \<rparr>))"
proof -
  have v: "valid (opts (init (joint45 5 150 20 2)))"
    by (rule valid_joint45) simp_all
  have p: "add_pin_cuts (resolved45 5 150 20 2 55) empty_doc =
     Inr (9.4, \<lparr> inkscape_scale = 1,
                 layer = [Path [(36.9, - 4.4), (38.1, - 4.4), (51.9, 9.4), (23.1, 9.4)]
                            INTERIOR None,
                          Path [(111.9, - 4.4), (113.1, - 4.4), (126.9, 9.4), (98.1, 9.4)]
                            INTERIOR None],
                 errormsgs = [] \<rparr>)"
    using add_pin_cuts_validated [OF calc_joint45_even, of empty_doc]
    by (simp add: layout_defs spec_defs tan_radians_45 pin_cut_def trapezoid_def
        du2uu_points_def du2uu_def empty_doc_def numeral_2_eq_2)
  have t: "add_tail_cuts (resolved45 5 150 20 2 55) 100 empty_doc =
     Some (Inr (128.8, \<lparr> inkscape_scale = 1,
                 layer = [Rectangle (- 2) 92.41 29.5 36.39 INTERIOR (Some (5, ''mm'')),
                          Rectangle 122.5 92.41 29.5 36.39 INTERIOR (Some (5, ''mm'')),
                          Rectangle 47.5 92.41 55 36.39 INTERIOR (Some (5, ''mm''))],
                 errormsgs = [] \<rparr>))"
    using add_tail_cuts_validated [OF v calc_joint45_even, of 100 empty_doc]
    by (simp add: layout_defs spec_defs tan_radians_45 tail_cut_def du2uu_def empty_doc_def)
  from p t calc_joint45_even show ?thesis
    by (simp add: resolved45_def)
qed

section \<open>The trapezoids of the pin board\<close>





section \<open>A single tail\<close>

lemma covers_corners:
  "covers [(x0, y0), (x1, y1), (x2, y2), (x3, y3)] x y \<longleftrightarrow>
     y0 \<le> y \<and> y \<le> y3 \<and>
     min (x0 + (y - y0) / (y3 - y0) * (x3 - x0)) (x1 + (y - y0) / (y3 - y0) * (x2 - x1)) \<le> x \<and>
     x \<le> max (x0 + (y - y0) / (y3 - y0) * (x3 - x0)) (x1 + (y - y0) / (y3 - y0) * (x2 - x1))"
  by (simp add: covers_def Let_def numeral_3_eq_3)

text \<open>
  A half-tail at the left board edge and the full trapezoid centred at \<open>c = 2 w + g\<close>
  next to it (\<open>s\<close> and \<open>w\<close> half the smaller and half the larger tail width, \<open>d\<close> the
  offset, \<open>g\<close> the cut between the tails) share a point exactly when \<open>g \<le> 2 d\<close>.
\<close>

lemma left_and_full_apart:
  fixes s w d g c sy ey :: real
  assumes "0 < s" and "s < w" and "0 < d" and "0 < g" and "c = 2 * w + g" and "sy < ey"
  shows "(\<forall>x y. \<not> (covers [(- 2, sy), (s - d, sy), (w + d, ey), (- 2, ey)] x y \<and>
                    covers [(c - s + d, sy), (c + s - d, sy), (c + w + d, ey), (c - w - d, ey)] x y))
         \<longleftrightarrow> 2 * d < g"
proof
  assume apart: "\<forall>x y. \<not> (covers [(- 2, sy), (s - d, sy), (w + d, ey), (- 2, ey)] x y \<and>
                    covers [(c - s + d, sy), (c + s - d, sy), (c + w + d, ey), (c - w - d, ey)] x y)"
  show "2 * d < g"
  proof (rule ccontr)
    assume "\<not> 2 * d < g"
    then have "covers [(- 2, sy), (s - d, sy), (w + d, ey), (- 2, ey)] (w + d) ey \<and>
        covers [(c - s + d, sy), (c + s - d, sy), (c + w + d, ey), (c - w - d, ey)] (w + d) ey"
      using assms by (simp add: covers_corners)
    with apart show False by blast
  qed
next
  assume far: "2 * d < g"
  show "\<forall>x y. \<not> (covers [(- 2, sy), (s - d, sy), (w + d, ey), (- 2, ey)] x y \<and>
                    covers [(c - s + d, sy), (c + s - d, sy), (c + w + d, ey), (c - w - d, ey)] x y)"
  proof (intro allI notI)
    fix x y
    assume both: "covers [(- 2, sy), (s - d, sy), (w + d, ey), (- 2, ey)] x y \<and>
        covers [(c - s + d, sy), (c + s - d, sy), (c + w + d, ey), (c - w - d, ey)] x y"
    define l where "l = (y - sy) / (ey - sy)"
    define m where "m = l * (w - s + 2 * d)"
    from both have y: "sy \<le> y" "y \<le> ey"
      by (simp_all add: covers_corners)
    have l: "0 \<le> l" "l \<le> 1"
      using y assms(6) by (simp_all add: l_def)
    have m: "0 \<le> m" "m \<le> w - s + 2 * d"
      using l assms(2,3) by (simp_all add: m_def mult_left_le_one_le)
    have sides: "- 2 + l * (- 2 - - 2) = - 2"
      "s - d + l * (w + d - (s - d)) = s - d + m"
      "c - s + d + l * (c - w - d - (c - s + d)) = c - (s - d + m)"
      "c + s - d + l * (c + w + d - (c + s - d)) = c + (s - d + m)"
      by (simp_all add: m_def algebra_simps)
    from both have "x \<le> max (- 2) (s - d + m)" "min (c - (s - d + m)) (c + (s - d + m)) \<le> x"
      unfolding covers_corners l_def [symmetric] sides by simp_all
    with m far assms show False
      by linarith
  qed
qed


text \<open>The same for the full trapezoid and the half-tail at the right board edge, the board
  being \<open>2 c\<close> wide.\<close>

lemma full_and_right_apart:
  fixes s w d g c sy ey :: real
  assumes "0 < s" and "s < w" and "0 < d" and "0 < g" and "c = 2 * w + g" and "sy < ey"
  shows "(\<forall>x y. \<not> (covers [(c - s + d, sy), (c + s - d, sy), (c + w + d, ey), (c - w - d, ey)] x y \<and>
                    covers [(2 * c - s + d, sy), (2 * c + 2, sy), (2 * c + 2, ey),
                            (2 * c - w - d, ey)] x y))
         \<longleftrightarrow> 2 * d < g"
proof
  assume apart: "\<forall>x y. \<not> (covers [(c - s + d, sy), (c + s - d, sy), (c + w + d, ey), (c - w - d, ey)] x y \<and>
                    covers [(2 * c - s + d, sy), (2 * c + 2, sy), (2 * c + 2, ey),
                            (2 * c - w - d, ey)] x y)"
  show "2 * d < g"
  proof (rule ccontr)
    assume "\<not> 2 * d < g"
    then have "covers [(c - s + d, sy), (c + s - d, sy), (c + w + d, ey), (c - w - d, ey)]
          (2 * c - w - d) ey \<and>
        covers [(2 * c - s + d, sy), (2 * c + 2, sy), (2 * c + 2, ey), (2 * c - w - d, ey)]
          (2 * c - w - d) ey"
      using assms by (simp add: covers_corners)
    with apart show False by blast
  qed
next
  assume far: "2 * d < g"
  show "\<forall>x y. \<not> (covers [(c - s + d, sy), (c + s - d, sy), (c + w + d, ey), (c - w - d, ey)] x y \<and>
                    covers [(2 * c - s + d, sy), (2 * c + 2, sy), (2 * c + 2, ey),
                            (2 * c - w - d, ey)] x y)"
  proof (intro allI notI)
    fix x y
    assume both: "covers [(c - s + d, sy), (c + s - d, sy), (c + w + d, ey), (c - w - d, ey)] x y \<and>
        covers [(2 * c - s + d, sy), (2 * c + 2, sy), (2 * c + 2, ey), (2 * c - w - d, ey)] x y"
    define l where "l = (y - sy) / (ey - sy)"
    define m where "m = l * (w - s + 2 * d)"
    from both have y: "sy \<le> y" "y \<le> ey"
      by (simp_all add: covers_corners)
    have l: "0 \<le> l" "l \<le> 1"
      using y assms(6) by (simp_all add: l_def)
    have m: "0 \<le> m" "m \<le> w - s + 2 * d"
      using l assms(2,3) by (simp_all add: m_def mult_left_le_one_le)
    have sides: "2 * c + 2 + l * (2 * c + 2 - (2 * c + 2)) = 2 * c + 2"
      "2 * c - s + d + l * (2 * c - w - d - (2 * c - s + d)) = 2 * c - (s - d + m)"
      "c - s + d + l * (c - w - d - (c - s + d)) = c - (s - d + m)"
      "c + s - d + l * (c + w + d - (c + s - d)) = c + (s - d + m)"
      by (simp_all add: m_def algebra_simps)
    from both have "x \<le> max (c - (s - d + m)) (c + (s - d + m))"
      "min (2 * c - (s - d + m)) (2 * c + 2) \<le> x"
      unfolding covers_corners l_def [symmetric] sides by simp_all
    with m far assms show False
      by linarith
  qed
qed

text \<open>
  C8, as stated, excludes any overlap of adjacent cut regions. Nothing in the code keeps
  neighbouring trapezoids of the pin board apart in the overcut region below the board: at
  45 degrees with pin_thickness 5, tail width 20 and one tail on a 48 mm board the check
  succeeds, and the point (12, 9.4) lies on the lower edge of the left half-tail (from -2 to
  14.4) and on the lower edge of the full trapezoid (from 9.6 to 38.4).
\<close>

theorem single_tail_overlap_counterexample:
  "valid (opts (init (joint45 5 48 20 1))) \<and>
   calc_and_check_parameters (init (joint45 5 48 20 1)) = Inr (None, resolved45 5 48 20 1 4) \<and>
   add_pin_cuts (resolved45 5 48 20 1 4) empty_doc =
     Inr (9.4, \<lparr> inkscape_scale = 1,
                 layer = [Path [(- 2, - 4.4), (0.6, - 4.4), (14.4, 9.4), (- 2, 9.4)]
                            INTERIOR None,
                          Path [(47.4, - 4.4), (50, - 4.4), (50, 9.4), (33.6, 9.4)]
                            INTERIOR None,
                          Path [(23.4, - 4.4), (24.6, - 4.4), (38.4, 9.4), (9.6, 9.4)]
                            INTERIOR None],
                 errormsgs = [] \<rparr>) \<and>
   covers [(- 2, - 4.4), (0.6, - 4.4), (14.4, 9.4), (- 2, 9.4)] 12 9.4 \<and>
   covers [(23.4, - 4.4), (24.6, - 4.4), (38.4, 9.4), (9.6, 9.4)] 12 9.4"
proof -
  have v: "valid (opts (init (joint45 5 48 20 1)))"
    by (rule valid_joint45) simp_all
  have "add_pin_cuts (resolved45 5 48 20 1 4) empty_doc =
     Inr (9.4, \<lparr> inkscape_scale = 1,
                 layer = [Path [(- 2, - 4.4), (0.6, - 4.4), (14.4, 9.4), (- 2, 9.4)]
                            INTERIOR None,
                          Path [(47.4, - 4.4), (50, - 4.4), (50, 9.4), (33.6, 9.4)]
                            INTERIOR None,
                          Path [(23.4, - 4.4), (24.6, - 4.4), (38.4, 9.4), (9.6, 9.4)]
                            INTERIOR None],
                 errormsgs = [] \<rparr>)"
    using add_pin_cuts_validated [OF calc_joint45_odd, of empty_doc]
    by (simp add: layout_defs spec_defs tan_radians_45 pin_cut_def trapezoid_def
        du2uu_points_def du2uu_def empty_doc_def)
  moreover have "covers [(- 2, - 4.4), (0.6, - 4.4), (14.4, 9.4), (- 2, 9.4)] 12 9.4"
    "covers [(23.4, - 4.4), (24.6, - 4.4), (38.4, 9.4), (9.6, 9.4)] 12 9.4"
    by (simp_all add: covers_corners)
  ultimately show ?thesis
    using v calc_joint45_odd by simp
qed


text \<open>
  C8, amended: for validated parameters with num_tails = 1 the pin board gets exactly the
  two half-tail trapezoids (one at each board edge, with a vertical side 2 mm outside the
  board) and one full trapezoid, and the tail board gets exactly two rectangles. The two
  rectangles lie inside the board, tail_width apart, so they do not overlap. Adjacent
  trapezoids of the pin board (a half-tail and the full trapezoid) have no point in common
  if and only if individual_inter_tail_cut_width > 2 delta_x, where
  delta_x = pin_bit_diameter * 0.55 * tan_cut_angle.
\<close>

theorem single_tail_layout:
  assumes "valid (opts self)" and "calc_and_check_parameters self = Inr (None, self')"
      and "num_tails (opts self) = 1"
  shows "add_pin_cuts self' doc =
           Inr (pin_end_y (opts self),
                doc\<lparr>layer := layer doc @
                   [pin_cut doc (left_half_tail (opts self)),
                    pin_cut doc (right_half_tail (opts self)),
                    pin_cut doc (full_tail (opts self) (pin_centre (opts self) 0))]\<rparr>) \<and>
         add_tail_cuts self' y_origin doc =
           Some (Inr (tail_end_y (opts self) y_origin,
                doc\<lparr>layer := layer doc @
                   [tail_cut self doc (tail_start_y (opts self) y_origin)
                      (tail_end_y (opts self) y_origin) (tail_cut_left (opts self) 0)
                      (tail_cut_left (opts self) 0
                         + spec_individual_inter_tail_cut_width (opts self)),
                    tail_cut self doc (tail_start_y (opts self) y_origin)
                      (tail_end_y (opts self) y_origin) (tail_cut_left (opts self) 1)
                      (tail_cut_left (opts self) 1
                         + spec_individual_inter_tail_cut_width (opts self))]\<rparr>)) \<and>
         0 < tail_cut_left (opts self) 0 \<and>
         0 < spec_individual_inter_tail_cut_width (opts self) \<and>
         tail_cut_left (opts self) 1
           - (tail_cut_left (opts self) 0 + spec_individual_inter_tail_cut_width (opts self))
           = width_tails (opts self) \<and>
         0 < width_tails (opts self) \<and>
         tail_cut_left (opts self) 1 + spec_individual_inter_tail_cut_width (opts self)
           < width (opts self) \<and>
         fst (left_half_tail (opts self) ! 0) = - 2 \<and>
         fst (left_half_tail (opts self) ! 3) = - 2 \<and>
         fst (right_half_tail (opts self) ! 1) = width (opts self) + 2 \<and>
         fst (right_half_tail (opts self) ! 2) = width (opts self) + 2 \<and>
         spec_delta_x (opts self) =
           pin_bit_diameter (opts self) * 0.55 * tan (radians (cut_angle (opts self))) \<and>
         ((\<forall>x y. \<not> (covers (left_half_tail (opts self)) x y \<and>
                      covers (full_tail (opts self) (pin_centre (opts self) 0)) x y))
          \<longleftrightarrow> 2 * spec_delta_x (opts self) < spec_individual_inter_tail_cut_width (opts self)) \<and>
         ((\<forall>x y. \<not> (covers (full_tail (opts self) (pin_centre (opts self) 0)) x y \<and>
                      covers (right_half_tail (opts self)) x y))
          \<longleftrightarrow> 2 * spec_delta_x (opts self) < spec_individual_inter_tail_cut_width (opts self))"
proof -
  note v = validated [OF assms(2)]
  let ?p = "opts self"
  let ?s = "spec_smaller_tail_width ?p / 2"
  let ?w = "width_tails ?p / 2"
  let ?d = "spec_delta_x ?p"
  let ?g = "spec_individual_inter_tail_cut_width ?p"
  let ?c = "pin_centre ?p 0"
  from assms(1) have pos: "0 < width_tails ?p" "0 < pin_bit_diameter ?p" "0 < pin_thickness ?p"
    "0 < cut_angle ?p" "cut_angle ?p < 90"
    by (simp_all add: valid_def)
  have odd: "odd (num_tails ?p)"
    using assms(3) by simp
  have t: "0 < tan (radians (cut_angle ?p))"
    using pos(4,5) by (rule tan_radians_pos)
  have g: "0 < ?g"
    using v(7,10) by simp
  have cuts: "spec_num_tail_cuts ?p = 2"
    using assms(3) by (simp add: spec_num_tail_cuts_def)
  have w: "width ?p = 2 * (?g + width_tails ?p)"
    using step_times_cuts [of ?p] cuts by simp
  have d: "0 < ?d"
    using pos(2) t by (simp add: spec_delta_x_def overcut_buffer_def)
  have s: "0 < ?s"
    using v(8) pos(2) by simp
  have sw: "?s < ?w"
    using t pos(3) by (simp add: spec_smaller_tail_width_def spec_upper_tail_diameter_def)
  have c: "?c = 2 * ?w + ?g"
    using odd by (simp add: pin_centre_def)
  have wc: "width ?p = 2 * ?c"
    using w c by simp
  have ys: "pin_start_y ?p < pin_end_y ?p"
    using pos(2,3) by (simp add: pin_start_y_def pin_end_y_def overcut_buffer_def)
  have pins: "add_pin_cuts self' doc =
           Inr (pin_end_y ?p,
                doc\<lparr>layer := layer doc @
                   [pin_cut doc (left_half_tail ?p),
                    pin_cut doc (right_half_tail ?p),
                    pin_cut doc (full_tail ?p ?c)]\<rparr>)"
    using add_pin_cuts_validated [OF assms(2), of doc] assms(3) by simp
  have tails: "add_tail_cuts self' y_origin doc =
           Some (Inr (tail_end_y ?p y_origin,
                doc\<lparr>layer := layer doc @
                   [tail_cut self doc (tail_start_y ?p y_origin)
                      (tail_end_y ?p y_origin) (tail_cut_left ?p 0)
                      (tail_cut_left ?p 0 + ?g),
                    tail_cut self doc (tail_start_y ?p y_origin)
                      (tail_end_y ?p y_origin) (tail_cut_left ?p 1)
                      (tail_cut_left ?p 1 + ?g)]\<rparr>))"
    using add_tail_cuts_validated [OF assms(1,2), of y_origin doc] assms(3)
    by (simp add: numeral_2_eq_2)
  have rects: "0 < tail_cut_left ?p 0"
    "tail_cut_left ?p 1 - (tail_cut_left ?p 0 + ?g) = width_tails ?p"
    "tail_cut_left ?p 1 + ?g < width ?p"
    using odd pos(1) g w by (simp_all add: tail_cut_left_def spacing_def)
  have left: "left_half_tail ?p =
      [(- 2, pin_start_y ?p), (?s - ?d, pin_start_y ?p), (?w + ?d, pin_end_y ?p),
       (- 2, pin_end_y ?p)]"
    by (simp add: left_half_tail_def)
  have full: "full_tail ?p ?c =
      [(?c - ?s + ?d, pin_start_y ?p), (?c + ?s - ?d, pin_start_y ?p),
       (?c + ?w + ?d, pin_end_y ?p), (?c - ?w - ?d, pin_end_y ?p)]"
    by (simp add: full_tail_def trapezoid_def)
  have right: "right_half_tail ?p =
      [(2 * ?c - ?s + ?d, pin_start_y ?p), (2 * ?c + 2, pin_start_y ?p),
       (2 * ?c + 2, pin_end_y ?p), (2 * ?c - ?w - ?d, pin_end_y ?p)]"
    unfolding right_half_tail_def wc by simp
  have sides: "fst (left_half_tail ?p ! 0) = - 2" "fst (left_half_tail ?p ! 3) = - 2"
    "fst (right_half_tail ?p ! 1) = width ?p + 2" "fst (right_half_tail ?p ! 2) = width ?p + 2"
    by (simp_all add: left_half_tail_def right_half_tail_def numeral_3_eq_3 numeral_2_eq_2)
  have dx: "?d = pin_bit_diameter ?p * 0.55 * tan (radians (cut_angle ?p))"
    by (simp add: spec_delta_x_def overcut_buffer_def)
  have lf: "(\<forall>x y. \<not> (covers (left_half_tail ?p) x y \<and> covers (full_tail ?p ?c) x y))
      \<longleftrightarrow> 2 * ?d < ?g"
    unfolding left full by (rule left_and_full_apart [OF s sw d g c ys])
  have fr: "(\<forall>x y. \<not> (covers (full_tail ?p ?c) x y \<and> covers (right_half_tail ?p) x y))
      \<longleftrightarrow> 2 * ?d < ?g"
    unfolding right full by (rule full_and_right_apart [OF s sw d g c ys])
  from pins tails rects g pos(1) sides dx lf fr show ?thesis
    by blast
qed


theorem single_tail_layout_witness:
  "valid (opts (init (joint45 5 150 20 1))) \<and>
   calc_and_check_parameters (init (joint45 5 150 20 1)) = Inr (None, resolved45 5 150 20 1 55) \<and>
   num_tails (opts (init (joint45 5 150 20 1))) = 1 \<and>
   (\<exists>left right full. add_pin_cuts (resolved45 5 150 20 1 55) empty_doc =
      Inr (9.4, empty_doc\<lparr>layer := [left, right, full]\<rparr>)) \<and>
   (\<exists>first second. add_tail_cuts (resolved45 5 150 20 1 55) 0 empty_doc =
      Some (Inr (28.8, empty_doc\<lparr>layer := [first, second]\<rparr>))) \<and>
   tail_cut_left (joint45 5 150 20 1) 0 = 10 \<and> tail_cut_left (joint45 5 150 20 1) 1 = 85 \<and>
   spec_individual_inter_tail_cut_width (joint45 5 150 20 1) = 55 \<and>
   spec_delta_x (joint45 5 150 20 1) = 4.4 \<and>
   (\<forall>x y. \<not> (covers (left_half_tail (joint45 5 150 20 1)) x y \<and>
               covers (full_tail (joint45 5 150 20 1) (pin_centre (joint45 5 150 20 1) 0)) x y)) \<and>
   (\<forall>x y. \<not> (covers (full_tail (joint45 5 150 20 1) (pin_centre (joint45 5 150 20 1) 0)) x y \<and>
               covers (right_half_tail (joint45 5 150 20 1)) x y))"
proof -
  have v: "valid (opts (init (joint45 5 150 20 1)))"
    by (rule valid_joint45) simp_all
  have c: "calc_and_check_parameters (init (joint45 5 150 20 1)) =
      Inr (None, resolved45 5 150 20 1 55)"
    by (simp add: calc_total Let_def spec_defs joint45_def init_def tan_radians_45 resolved45_def)
  have n: "num_tails (opts (init (joint45 5 150 20 1))) = 1"
    by simp
  note run = single_tail_layout [OF v c n, of empty_doc 0]
  have e: "pin_end_y (joint45 5 150 20 1) = 9.4" "tail_end_y (joint45 5 150 20 1) 0 = 28.8"
    "tail_cut_left (joint45 5 150 20 1) 0 = 10" "tail_cut_left (joint45 5 150 20 1) 1 = 85"
    "spec_individual_inter_tail_cut_width (joint45 5 150 20 1) = 55"
    "spec_delta_x (joint45 5 150 20 1) = 4.4"
    by (simp_all add: layout_defs spec_defs tan_radians_45)
  have p: "add_pin_cuts (resolved45 5 150 20 1 55) empty_doc =
      Inr (9.4, empty_doc\<lparr>layer :=
        [pin_cut empty_doc (left_half_tail (joint45 5 150 20 1)),
         pin_cut empty_doc (right_half_tail (joint45 5 150 20 1)),
         pin_cut empty_doc
           (full_tail (joint45 5 150 20 1) (pin_centre (joint45 5 150 20 1) 0))]\<rparr>)"
    using run [THEN conjunct1] by (simp add: e(1))
  have t: "add_tail_cuts (resolved45 5 150 20 1 55) 0 empty_doc =
      Some (Inr (28.8, empty_doc\<lparr>layer :=
        [tail_cut (init (joint45 5 150 20 1)) empty_doc (tail_start_y (joint45 5 150 20 1) 0)
           28.8 10 65,
         tail_cut (init (joint45 5 150 20 1)) empty_doc (tail_start_y (joint45 5 150 20 1) 0)
           28.8 85 140]\<rparr>))"
    using run [THEN conjunct2, THEN conjunct1] e(4) by (simp add: e(2,3,5))
  have apart: "\<forall>x y. \<not> (covers (left_half_tail (joint45 5 150 20 1)) x y \<and>
               covers (full_tail (joint45 5 150 20 1) (pin_centre (joint45 5 150 20 1) 0)) x y)"
    "\<forall>x y. \<not> (covers (full_tail (joint45 5 150 20 1) (pin_centre (joint45 5 150 20 1) 0)) x y \<and>
               covers (right_half_tail (joint45 5 150 20 1)) x y)"
    using run by (simp_all add: e(5,6))
  from p have "\<exists>left right full. add_pin_cuts (resolved45 5 150 20 1 55) empty_doc =
      Inr (9.4, empty_doc\<lparr>layer := [left, right, full]\<rparr>)"
    by blast
  moreover from t have "\<exists>first second. add_tail_cuts (resolved45 5 150 20 1 55) 0 empty_doc =
      Some (Inr (28.8, empty_doc\<lparr>layer := [first, second]\<rparr>))"
    by blast
  ultimately show ?thesis
    using v c n e(3-6) apart by blast
qed

end
